theory Spec2Isabelle
  imports Complex_Main
begin

section \<open>Text stabilizer (backend/pipeline/stabilizer.py, class TextStabilizer)\<close>

text \<open>
  Python strings are modelled as \<open>string\<close>; each \<open>char\<close> stands for one code point
  below 256, so \<open>length\<close> is Python's \<open>len\<close> on such texts.

  The stabilizer consults \<open>difflib.SequenceMatcher\<close>, which is part of the Python
  standard library and not of this repository. It is taken as a parameter: \<open>ratio\<close> is
  \<open>SequenceMatcher(None, a, b).ratio()\<close> and \<open>get_matching_blocks\<close> is the list of
  triples \<open>(a, b, size)\<close> returned by the method of the same name. Similarities are
  Python floats, modelled as reals.
\<close>

record sequence_matcher =
  ratio :: "string \<Rightarrow> string \<Rightarrow> real"
  get_matching_blocks :: "string \<Rightarrow> string \<Rightarrow> (nat \<times> nat \<times> nat) list"

record text_stabilizer =
  similarity_threshold :: real
  min_stable_length :: int
  previous_text :: string
  stable_text :: string
  consecutive_stable_count :: nat

text \<open>The dictionary returned by \<open>process\<close>; \<open>full_text\<close> is present on the main branch only.\<close>

record stabilizer_result =
  res_stable_text :: string
  res_incremental_text :: string
  res_confidence :: real
  res_is_stable :: bool
  res_full_text :: "string option"

definition TextStabilizer :: "real \<Rightarrow> int \<Rightarrow> text_stabilizer" where
  "TextStabilizer thr min_len =
     \<lparr>similarity_threshold = thr, min_stable_length = min_len,
      previous_text = [], stable_text = [], consecutive_stable_count = 0\<rparr>"

definition calculate_similarity :: "sequence_matcher \<Rightarrow> string \<Rightarrow> string \<Rightarrow> real" where
  "calculate_similarity m text1 text2 =
     (if text1 = [] \<and> text2 = [] then 1
      else if text1 = [] \<or> text2 = [] then 0
      else ratio m text1 text2)"

definition find_stable_prefix :: "sequence_matcher \<Rightarrow> string \<Rightarrow> string \<Rightarrow> string" where
  "find_stable_prefix m text1 text2 =
     (if text1 = [] \<or> text2 = [] then []
      else (case get_matching_blocks m text1 text2 of
              [] \<Rightarrow> []
            | (a, b, n) # _ \<Rightarrow> if a = 0 \<and> b = 0 then take n text2 else []))"

text \<open>
  \<open>process\<close> returns the result dictionary and the updated object. On the final branch
  the object's \<open>stable_text\<close> is assigned before the dictionary is built, so the
  dictionary's \<open>incremental_text\<close> is computed from the updated field, as in the source.
\<close>

definition process :: "sequence_matcher \<Rightarrow> text_stabilizer \<Rightarrow> string \<Rightarrow> bool
    \<Rightarrow> stabilizer_result \<times> text_stabilizer" where
  "process m self new_text is_final =
     (if new_text = [] then
        (\<lparr>res_stable_text = stable_text self, res_incremental_text = [],
          res_confidence = 1, res_is_stable = True, res_full_text = None\<rparr>, self)
      else if is_final then
        (let self1 = self\<lparr>stable_text := new_text, previous_text := new_text,
                          consecutive_stable_count := 0\<rparr>
         in (\<lparr>res_stable_text = new_text,
              res_incremental_text =
                (if length new_text > length (stable_text self1)
                 then drop (length (stable_text self1)) new_text else []),
              res_confidence = 1, res_is_stable = True, res_full_text = None\<rparr>, self1))
      else
        (let similarity = calculate_similarity m (previous_text self) new_text;
             stable_prefix = find_stable_prefix m (previous_text self) new_text;
             is_stable = (similarity \<ge> similarity_threshold self
                          \<and> int (length stable_prefix) \<ge> min_stable_length self);
             self1 = self\<lparr>consecutive_stable_count :=
                        (if is_stable then consecutive_stable_count self + 1 else 0)\<rparr>;
             commit = (consecutive_stable_count self1 \<ge> 2
                       \<or> length stable_prefix > length (stable_text self1));
             incremental = (if commit then drop (length (stable_text self1)) stable_prefix
                            else []);
             self2 = (if commit then self1\<lparr>stable_text := stable_prefix\<rparr> else self1);
             self3 = self2\<lparr>previous_text := new_text\<rparr>
         in (\<lparr>res_stable_text = stable_text self3, res_incremental_text = incremental,
              res_confidence = similarity, res_is_stable = is_stable,
              res_full_text = Some new_text\<rparr>, self3)))"

text \<open>
  A concrete matcher for the examples below. It reports the common prefix of the two
  texts as the only matching block, followed by difflib's terminating dummy block.
  On two texts of equal length that differ in their last character only, this is what
  \<open>difflib.SequenceMatcher\<close> computes: one block \<open>(0, 0, n - 1)\<close>, the dummy
  \<open>(n, n, 0)\<close>, and ratio \<open>2 (n - 1) / (2 n)\<close>.
\<close>

fun common_prefix :: "string \<Rightarrow> string \<Rightarrow> string" where
  "common_prefix (x # xs) (y # ys) = (if x = y then x # common_prefix xs ys else [])"
| "common_prefix _ _ = []"

definition prefix_matcher :: sequence_matcher where
  "prefix_matcher =
     \<lparr>ratio = (\<lambda>a b. 2 * real (length (common_prefix a b)) / real (length a + length b)),
      get_matching_blocks = (\<lambda>a b.
         (if common_prefix a b = [] then [] else [(0, 0, length (common_prefix a b))])
         @ [(length a, length b, 0)])\<rparr>"

text \<open>
  Example runs. \<open>hypothesis_a\<close> and \<open>hypothesis_b\<close> have 27 characters each and
  differ in the last one only. \<open>after_final\<close> is the stabilizer with the default
  settings (threshold 0.85, minimum stable length 10) after one final call;
  \<open>after_partial\<close> is that stabilizer after a following non-final call.
\<close>

definition hypothesis_a :: string where
  "hypothesis_a = ''hello world, this is a test''"

definition hypothesis_b :: string where
  "hypothesis_b = ''hello world, this is a tesx''"

definition after_final :: text_stabilizer where
  "after_final = snd (process prefix_matcher (TextStabilizer 0.85 10) hypothesis_a True)"

definition after_partial :: text_stabilizer where
  "after_partial = snd (process prefix_matcher after_final hypothesis_b False)"

section \<open>Phrase buffer (backend/pipeline/stabilizer.py, class PhraseBuffer)\<close>

text \<open>
  \<open>rfind\<close> is \<open>str.rfind\<close> for a needle of one character: the highest index at which
  the character occurs, or -1. \<open>isspace\<close> is \<open>str.isspace\<close> on the code points below
  256, and \<open>strip\<close> is \<open>str.strip()\<close> without arguments. \<open>last_delimiter\<close> is the loop
  of \<open>add\<close> over the delimiter characters, started with \<open>last_delimiter_pos = -1\<close>.
  The slice bound \<open>last_delimiter_pos + 1\<close> is never negative, so the two slices are
  \<open>take\<close> and \<open>drop\<close>.
\<close>

record phrase_buffer =
  min_phrase_length :: int
  phrase_delimiters :: string
  buffer :: string

definition default_delimiters :: string where
  "default_delimiters = ''.!?,;:'' @ [CHR 0x0A]"

definition PhraseBuffer :: "int \<Rightarrow> string \<Rightarrow> phrase_buffer" where
  "PhraseBuffer min_len delims =
     \<lparr>min_phrase_length = min_len, phrase_delimiters = delims, buffer = []\<rparr>"

fun rfind :: "string \<Rightarrow> char \<Rightarrow> int" where
  "rfind [] c = - 1"
| "rfind (x # xs) c =
     (let r = rfind xs c in if r \<ge> 0 then r + 1 else if x = c then 0 else - 1)"

definition isspace :: "char \<Rightarrow> bool" where
  "isspace c = ((of_char c :: nat) \<in> {9, 10, 11, 12, 13, 28, 29, 30, 31, 32, 133, 160})"

definition strip :: "string \<Rightarrow> string" where
  "strip s = rev (dropWhile isspace (rev (dropWhile isspace s)))"

fun last_delimiter :: "string \<Rightarrow> string \<Rightarrow> int \<Rightarrow> int" where
  "last_delimiter buf [] last_delimiter_pos = last_delimiter_pos"
| "last_delimiter buf (delimiter # rest) last_delimiter_pos =
     (let pos = rfind buf delimiter
      in last_delimiter buf rest (if pos > last_delimiter_pos then pos else last_delimiter_pos))"

definition add :: "phrase_buffer \<Rightarrow> string \<Rightarrow> string option \<times> phrase_buffer" where
  "add self text =
     (let self1 = self\<lparr>buffer := buffer self @ text\<rparr>
      in if int (length (buffer self1)) \<ge> min_phrase_length self1 then
           (let last_delimiter_pos = last_delimiter (buffer self1) (phrase_delimiters self1) (- 1)
            in if last_delimiter_pos \<ge> min_phrase_length self1 then
                 (Some (strip (take (nat (last_delimiter_pos + 1)) (buffer self1))),
                  self1\<lparr>buffer := strip (drop (nat (last_delimiter_pos + 1)) (buffer self1))\<rparr>)
               else (None, self1))
         else (None, self1))"

definition flush :: "phrase_buffer \<Rightarrow> string \<times> phrase_buffer" where
  "flush self = (buffer self, self\<lparr>buffer := []\<rparr>)"


text \<open>
  The run of the phrase buffer with minimum phrase length 10 and the default delimiters
  on \<open>add("Hello world. How are")\<close> followed by \<open>add("you?")\<close>.
\<close>

definition buffer_after_first :: phrase_buffer where
  "buffer_after_first = snd (add (PhraseBuffer 10 default_delimiters) ''Hello world. How are'')"

definition buffer_after_second :: phrase_buffer where
  "buffer_after_second = snd (add buffer_after_first ''you?'')"

section \<open>Metrics collector (backend/utils/metrics.py, class MetricsCollector)\<close>

text \<open>
  Metric values are Python floats, modelled as reals. A window is a
  \<open>collections.deque\<close> created with \<open>maxlen = window_size\<close>: the constructor raises
  \<open>ValueError\<close> for a negative \<open>maxlen\<close>, and \<open>append\<close> adds the value on the right and
  then removes the left-most value when the length exceeds \<open>maxlen\<close>.

  \<open>statistics_mean\<close>, \<open>statistics_median\<close> and \<open>statistics_stdev\<close> are the functions
  \<open>mean\<close>, \<open>median\<close> and \<open>stdev\<close> of Python's \<open>statistics\<close> module; \<open>stdev\<close> divides
  the sum of squared deviations by \<open>n - 1\<close>. It raises for fewer than two values, and
  \<open>get_stats\<close> calls it with more than one value only. \<open>py_int\<close> is \<open>int()\<close> on a
  float (truncation towards zero) and \<open>py_index\<close> is list indexing, where a negative
  index counts from the end. The product \<open>len(sorted_values) * p\<close> is a float product
  in the source and an exact product here.

  \<open>record_value\<close> is the method \<open>record\<close>, and \<open>record_all\<close> a caller's loop that
  records the values of a list in order. \<open>start_time\<close> is the clock reading taken by the
  constructor.
\<close>

datatype metrics_error = ValueError | IndexError

record deque =
  maxlen :: nat
  items :: "real list"

definition deque_new :: "int \<Rightarrow> metrics_error + deque" where
  "deque_new n = (if n < 0 then Inl ValueError else Inr \<lparr>maxlen = nat n, items = []\<rparr>)"

definition deque_append :: "deque \<Rightarrow> real \<Rightarrow> deque" where
  "deque_append d v =
     (let ys = items d @ [v]
      in d\<lparr>items := (if length ys > maxlen d then tl ys else ys)\<rparr>)"

record metrics_collector =
  window_size :: int
  metrics :: "string \<rightharpoonup> deque"
  counters :: "string \<rightharpoonup> int"
  start_time :: real

definition MetricsCollector :: "int \<Rightarrow> real \<Rightarrow> metrics_collector" where
  "MetricsCollector n now =
     \<lparr>window_size = n, metrics = Map.empty, counters = Map.empty, start_time = now\<rparr>"

definition record_value :: "metrics_collector \<Rightarrow> string \<Rightarrow> real
    \<Rightarrow> metrics_error + metrics_collector" where
  "record_value self metric_name v =
     (case metrics self metric_name of
        None \<Rightarrow>
          (case deque_new (window_size self) of
             Inl e \<Rightarrow> Inl e
           | Inr d \<Rightarrow> Inr (self\<lparr>metrics := (metrics self)(metric_name \<mapsto> deque_append d v)\<rparr>))
      | Some d \<Rightarrow> Inr (self\<lparr>metrics := (metrics self)(metric_name \<mapsto> deque_append d v)\<rparr>))"

fun record_all :: "metrics_collector \<Rightarrow> string \<Rightarrow> real list
    \<Rightarrow> metrics_error + metrics_collector" where
  "record_all self metric_name [] = Inr self"
| "record_all self metric_name (v # vs) =
     (case record_value self metric_name v of
        Inl e \<Rightarrow> Inl e
      | Inr self1 \<Rightarrow> record_all self1 metric_name vs)"

definition increment :: "metrics_collector \<Rightarrow> string \<Rightarrow> int \<Rightarrow> metrics_collector" where
  "increment self counter_name amount =
     (let c = (case counters self counter_name of None \<Rightarrow> 0 | Some n \<Rightarrow> n)
      in self\<lparr>counters := (counters self)(counter_name \<mapsto> c + amount)\<rparr>)"

definition statistics_mean :: "real list \<Rightarrow> real" where
  "statistics_mean data = sum_list data / real (length data)"

definition statistics_median :: "real list \<Rightarrow> real" where
  "statistics_median data =
     (let sorted_data = sort data; n = length sorted_data
      in if n mod 2 = 1 then sorted_data ! (n div 2)
         else (sorted_data ! (n div 2 - 1) + sorted_data ! (n div 2)) / 2)"

definition statistics_stdev :: "real list \<Rightarrow> real" where
  "statistics_stdev data =
     sqrt (sum_list (map (\<lambda>x. (x - statistics_mean data)\<^sup>2) data) / real (length data - 1))"

definition py_int :: "real \<Rightarrow> int" where
  "py_int r = (if r \<ge> 0 then \<lfloor>r\<rfloor> else \<lceil>r\<rceil>)"

definition py_index :: "real list \<Rightarrow> int \<Rightarrow> metrics_error + real" where
  "py_index xs i =
     (if 0 \<le> i \<and> i < int (length xs) then Inr (xs ! nat i)
      else if i < 0 \<and> - int (length xs) \<le> i then Inr (xs ! nat (int (length xs) + i))
      else Inl IndexError)"

definition percentile :: "real list \<Rightarrow> real \<Rightarrow> metrics_error + real" where
  "percentile vs p =
     (if vs = [] then Inr 0
      else (let sorted_values = sort vs;
                index = py_int (real (length sorted_values) * p);
                index1 = min index (int (length sorted_values) - 1)
            in py_index sorted_values index1))"

record stats =
  mean :: real
  median :: real
  min_value :: real
  max_value :: real
  stdev :: real
  count :: nat
  p95 :: real
  p99 :: real

definition get_stats :: "metrics_collector \<Rightarrow> string \<Rightarrow> metrics_error + stats option" where
  "get_stats self metric_name =
     (case metrics self metric_name of
        None \<Rightarrow> Inr None
      | Some d \<Rightarrow>
          if length (items d) = 0 then Inr None
          else (let vs = items d
                in case percentile vs 0.95 of
                     Inl e \<Rightarrow> Inl e
                   | Inr q95 \<Rightarrow>
                       (case percentile vs 0.99 of
                          Inl e \<Rightarrow> Inl e
                        | Inr q99 \<Rightarrow>
                            Inr (Some \<lparr>mean = statistics_mean vs,
                                       median = statistics_median vs,
                                       min_value = Min (set vs),
                                       max_value = Max (set vs),
                                       stdev = (if length vs > 1 then statistics_stdev vs else 0),
                                       count = length vs,
                                       p95 = q95, p99 = q99\<rparr>))))"

text \<open>
  The population standard deviation, as the specification words it: the sum of squared
  deviations divided by \<open>n\<close>.
\<close>

definition population_stdev :: "real list \<Rightarrow> real" where
  "population_stdev data =
     sqrt (sum_list (map (\<lambda>x. (x - statistics_mean data)\<^sup>2) data) / real (length data))"


text \<open>
  Example collectors with window capacity 100: one after recording eight values, one
  after recording the values 1 to 100.
\<close>

definition eight_samples :: "real list" where
  "eight_samples = [2, 4, 4, 4, 5, 5, 7, 9]"

definition collector_of :: "metrics_error + metrics_collector \<Rightarrow> metrics_collector" where
  "collector_of r = (case r of Inr c \<Rightarrow> c | Inl e \<Rightarrow> MetricsCollector 0 0)"

definition collector_eight :: metrics_collector where
  "collector_eight = collector_of (record_all (MetricsCollector 100 0) ''latency'' eight_samples)"

definition values_1_to_100 :: "real list" where
  "values_1_to_100 = map real [1..<101]"

definition collector_1_to_100 :: metrics_collector where
  "collector_1_to_100 =
     collector_of (record_all (MetricsCollector 100 0) ''latency'' values_1_to_100)"

section \<open>Voice activity detector (backend/pipeline/vad.py, class VoiceActivityDetector)\<close>

text \<open>
  An audio chunk is a numpy array; its samples are modelled as reals. \<open>process\<close> scales
  a chunk whose dtype is not float32 by \<open>1 / 32768\<close>. The Silero model is external: the
  field \<open>model\<close> is \<open>None\<close> when loading failed, and otherwise a function from a frame
  and the sample rate to a speech probability, which may raise. \<open>vad_initialize\<close> takes
  what \<open>torch.hub.load\<close> produced.

  \<open>vad_process\<close> is the method \<open>process\<close> and \<open>vad_reset\<close> the method \<open>reset\<close> (the text
  stabilizer has methods of the same names). \<open>is_speech_detected\<close> is the loop of
  \<open>process\<close> over the start offsets \<open>range(0, len(audio_chunk), vad_frame_size)\<close>;
  \<open>detect_speech\<close> and \<open>energy_based_detection\<close> are the methods \<open>_detect_speech\<close> and
  \<open>_energy_based_detection\<close>. \<open>feed\<close> is a caller that passes chunks to \<open>process\<close> one
  after the other.
\<close>

datatype audio_chunk = Float32 "real list" | OtherDtype "real list"

definition to_float32 :: "audio_chunk \<Rightarrow> real list" where
  "to_float32 audio_chunk =
     (case audio_chunk of
        Float32 xs \<Rightarrow> xs
      | OtherDtype xs \<Rightarrow> map (\<lambda>x. x / 32768) xs)"

datatype model_error = ModelError

record voice_activity_detector =
  sample_rate :: int
  threshold :: real
  min_speech_duration_ms :: int
  min_silence_duration_ms :: int
  speech_pad_ms :: int
  model :: "(real list \<Rightarrow> int \<Rightarrow> model_error + real) option"
  speech_buffer :: "real list list"
  is_speaking :: bool
  speech_frames :: nat
  silence_frames :: nat
  frame_buffer :: "real list"
  vad_frame_size :: nat
  frame_duration_ms :: int
  min_speech_frames :: int
  min_silence_frames :: int

definition VoiceActivityDetector :: "int \<Rightarrow> real \<Rightarrow> int \<Rightarrow> int \<Rightarrow> int
    \<Rightarrow> voice_activity_detector" where
  "VoiceActivityDetector rate thr speech_ms silence_ms pad_ms =
     \<lparr>sample_rate = rate, threshold = thr,
      min_speech_duration_ms = speech_ms, min_silence_duration_ms = silence_ms,
      speech_pad_ms = pad_ms, model = None, speech_buffer = [], is_speaking = False,
      speech_frames = 0, silence_frames = 0, frame_buffer = [],
      vad_frame_size = (if rate = 16000 then 512 else 256),
      frame_duration_ms = 30,
      min_speech_frames = speech_ms div 30,
      min_silence_frames = silence_ms div 30\<rparr>"

definition vad_initialize :: "voice_activity_detector
    \<Rightarrow> (real list \<Rightarrow> int \<Rightarrow> model_error + real) option \<Rightarrow> voice_activity_detector" where
  "vad_initialize self loaded = self\<lparr>model := loaded\<rparr>"

definition energy_based_detection :: "real list \<Rightarrow> bool" where
  "energy_based_detection audio_chunk =
     (let rms = sqrt (sum_list (map (\<lambda>x. x\<^sup>2) audio_chunk) / real (length audio_chunk));
          energy_threshold = 0.01
      in rms > energy_threshold)"

definition detect_speech :: "voice_activity_detector \<Rightarrow> real list \<Rightarrow> bool" where
  "detect_speech self audio_frame =
     (case model self of
        Some f \<Rightarrow>
          (let required_size = (if sample_rate self = 16000 then 512 else 256)
           in if length audio_frame \<noteq> required_size then energy_based_detection audio_frame
              else (case f audio_frame (sample_rate self) of
                      Inr speech_prob \<Rightarrow> speech_prob > threshold self
                    | Inl e \<Rightarrow> energy_based_detection audio_frame))
      | None \<Rightarrow> energy_based_detection audio_frame)"

definition is_speech_detected :: "voice_activity_detector \<Rightarrow> real list \<Rightarrow> bool" where
  "is_speech_detected self audio_chunk =
     (let vad_frame_size = (if sample_rate self = 16000 then 512 else 256)
      in list_ex (\<lambda>i. let frame = take vad_frame_size (drop i audio_chunk)
                      in length frame = vad_frame_size \<and> detect_speech self frame)
           (map (\<lambda>k. k * vad_frame_size)
              [0..<(length audio_chunk + vad_frame_size - 1) div vad_frame_size]))"

definition vad_process :: "voice_activity_detector \<Rightarrow> audio_chunk
    \<Rightarrow> (bool \<times> real list option) \<times> voice_activity_detector" where
  "vad_process self chunk =
     (let audio_chunk = to_float32 chunk;
          detected = is_speech_detected self audio_chunk
      in if detected then
           (let self1 = self\<lparr>speech_frames := speech_frames self + 1, silence_frames := 0,
                             speech_buffer := speech_buffer self @ [audio_chunk]\<rparr>;
                self2 = (if \<not> is_speaking self1
                            \<and> int (speech_frames self1) \<ge> min_speech_frames self1
                         then self1\<lparr>is_speaking := True\<rparr> else self1)
            in ((detected, None), self2))
         else
           (let self1 = self\<lparr>silence_frames := silence_frames self + 1\<rparr>
            in if is_speaking self1 then
                 (let self2 = self1\<lparr>speech_buffer := speech_buffer self1 @ [audio_chunk]\<rparr>
                  in if int (silence_frames self2) \<ge> min_silence_frames self2 then
                       (let segment = (if speech_buffer self2 \<noteq> []
                                       then Some (concat (speech_buffer self2)) else None);
                            self3 = self2\<lparr>speech_buffer := [], is_speaking := False,
                                          speech_frames := 0, silence_frames := 0\<rparr>
                        in ((True, segment), self3))
                     else ((detected, None), self2))
               else ((detected, None), self1)))"

definition vad_reset :: "voice_activity_detector \<Rightarrow> voice_activity_detector" where
  "vad_reset self = self\<lparr>speech_buffer := [], is_speaking := False, speech_frames := 0,
                         silence_frames := 0, frame_buffer := []\<rparr>"

fun feed :: "voice_activity_detector \<Rightarrow> audio_chunk list \<Rightarrow> voice_activity_detector" where
  "feed self [] = self"
| "feed self (chunk # chunks) = feed (snd (vad_process self chunk)) chunks"

text \<open>
  Example input: a detector without a neural model (energy detection), at 16 kHz, with
  \<open>min_speech_duration_ms = 60\<close> and \<open>min_silence_duration_ms = 60\<close>, so that both
  frame thresholds are 2; a chunk of 512 samples of amplitude 0.5, and one of 512 zeros.
\<close>

definition loud :: audio_chunk where
  "loud = Float32 (replicate 512 (1 / 2))"

definition quiet :: audio_chunk where
  "quiet = Float32 (replicate 512 0)"

definition short_onset_detector :: voice_activity_detector where
  "short_onset_detector = vad_reset (VoiceActivityDetector 16000 (1 / 2) 60 60 100)"

section \<open>Pipeline orchestrator (backend/pipeline/orchestrator.py)\<close>

text \<open>
  The three engines wrap external models. What the orchestrator sees of those models is
  collected in the record \<open>collaborators\<close>: whether loading the Whisper model raises,
  what its transcription worker returns (\<open>None\<close> when it raises), whether the Argos
  and Piper packages could be imported, what \<open>argostranslate.translate.translate\<close> and
  the Piper synthesis worker return (\<open>None\<close> when they raise), whether the Piper voice
  loads, the Silero model that \<open>torch.hub.load\<close> yields, the WAV bytes that \<open>MockTTS\<close>
  generates, and two library functions: \<open>difflib\<close> for the stabilizer and \<open>str_upper\<close>
  for \<open>str.upper\<close>.

  \<open>ASREngine loaded language\<close>, \<open>Translator source target\<close> and \<open>TTSEngine loaded\<close>
  are the engines of asr.py, translator.py and tts.py with the fields that decide their
  answers (\<open>loaded\<close>: the field \<open>model\<close> is not \<open>None\<close>); \<open>MockASR\<close>,
  \<open>MockTranslator\<close> and \<open>MockTTS\<close> are the stubs of the same files.
  \<open>asr_initialize\<close>, \<open>translator_initialize\<close> and \<open>tts_initialize\<close> are the engines'
  \<open>initialize\<close> methods: \<open>ASREngine.initialize\<close> logs and re-raises, while
  \<open>Translator.initialize\<close> and \<open>TTSEngine.initialize\<close> catch every exception and
  return. \<open>transcribe\<close>, \<open>translate\<close> and \<open>synthesize\<close> dispatch on the engine held;
  the methods of the real translator and synthesizer catch every exception, so only
  \<open>transcribe\<close> can raise (with no model loaded).

  \<open>PassthroughVAD\<close> is the class of vad.py used when VAD is disabled; its fields
  \<open>sample_rate\<close> and \<open>buffer\<close> are \<open>pt_sample_rate\<close> and \<open>pt_buffer\<close> here.
  \<open>bytes_to_array\<close> is \<open>AudioProcessor.bytes_to_array\<close>: \<open>np.frombuffer\<close> with dtype
  int16 raises for an odd number of bytes, which the method turns into \<open>None\<close>; the byte
  order is the little-endian one of the usual platforms. Bytes are numbers below 256.

  \<open>process_audio\<close> catches every exception and returns an error dictionary, whose message
  is \<open>str(e)\<close>; the model keeps the exception itself. Wall-clock latencies are measured
  with \<open>time.time()\<close> in the source; here they are given to \<open>process_audio\<close> as
  \<open>stage_latencies\<close>, and \<open>get_status\<close> takes the current clock reading. The field
  \<open>metrics\<close> of the orchestrator is \<open>orchestrator_metrics\<close>. In \<open>get_summary\<close> the
  dictionary of statistics is a map from metric names, holding the metrics for which
  \<open>get_stats\<close> returns statistics.
\<close>

record passthrough_vad =
  pt_sample_rate :: int
  target_samples :: int
  pt_buffer :: "real list list"
  total_samples :: nat

definition PassthroughVAD :: "int \<Rightarrow> int \<Rightarrow> passthrough_vad" where
  "PassthroughVAD rate target_duration_ms =
     \<lparr>pt_sample_rate = rate,
      target_samples = py_int (real_of_int (rate * target_duration_ms) / 1000),
      pt_buffer = [], total_samples = 0\<rparr>"

definition passthrough_process :: "passthrough_vad \<Rightarrow> real list
    \<Rightarrow> (bool \<times> real list option) \<times> passthrough_vad" where
  "passthrough_process self audio_chunk =
     (let self1 = self\<lparr>pt_buffer := pt_buffer self @ [audio_chunk],
                       total_samples := total_samples self + length audio_chunk\<rparr>
      in if int (total_samples self1) \<ge> target_samples self1
         then ((True, Some (concat (pt_buffer self1))),
               self1\<lparr>pt_buffer := [], total_samples := 0\<rparr>)
         else ((False, None), self1))"

definition passthrough_reset :: "passthrough_vad \<Rightarrow> passthrough_vad" where
  "passthrough_reset self = self\<lparr>pt_buffer := [], total_samples := 0\<rparr>"

datatype vad_component = Detector voice_activity_detector | Passthrough passthrough_vad

datatype asr_engine = ASREngine bool string | MockASR

datatype translator_engine = Translator string string | MockTranslator string string

datatype tts_engine = TTSEngine bool | MockTTS

datatype pipeline_error =
    LoadError
  | RuntimeError
  | AttributeError
  | ZeroDivisionError
  | CollectorError metrics_error

type_synonym bytes = "nat list"

record transcription_result =
  tr_text :: string
  tr_language :: string
  tr_confidence :: real

record config =
  SAMPLE_RATE :: int
  CHUNK_DURATION_MS :: int
  VAD_ENABLED :: bool
  VAD_THRESHOLD :: real
  VAD_MIN_SPEECH_DURATION_MS :: int
  VAD_MIN_SILENCE_DURATION_MS :: int
  VAD_SPEECH_PAD_MS :: int
  SOURCE_LANGUAGE :: string
  TARGET_LANGUAGE :: string

record collaborators =
  silero_model :: "(real list \<Rightarrow> int \<Rightarrow> model_error + real) option"
  whisper_load_raises :: bool
  whisper_transcribe_sync :: "real list \<Rightarrow> string \<Rightarrow> transcription_result option"
  ARGOS_AVAILABLE :: bool
  argos_translate :: "string \<Rightarrow> string \<Rightarrow> string \<Rightarrow> string option"
  PIPER_AVAILABLE :: bool
  piper_voice_loads :: bool
  piper_synthesize_sync :: "string \<Rightarrow> bytes option"
  mock_wav :: bytes
  difflib :: sequence_matcher
  str_upper :: "string \<Rightarrow> string"

fun int16_samples :: "bytes \<Rightarrow> int list" where
  "int16_samples (lo # hi # rest) =
     (let v = int (lo mod 256 + 256 * (hi mod 256))
      in (if v \<ge> 32768 then v - 65536 else v) # int16_samples rest)"
| "int16_samples _ = []"

definition bytes_to_array :: "bytes \<Rightarrow> real list option" where
  "bytes_to_array audio_bytes_in =
     (if odd (length audio_bytes_in) then None
      else Some (map (\<lambda>v. real_of_int v / 32768) (int16_samples audio_bytes_in)))"

record stage_latencies =
  vad_latency_ms :: real
  asr_latency_ms :: real
  translation_latency_ms :: real
  tts_latency_ms :: real
  total_latency_ms :: real

record pipeline_orchestrator =
  config :: config
  vad :: "vad_component option"
  asr :: "asr_engine option"
  translator :: "translator_engine option"
  tts :: "tts_engine option"
  stabilizer :: text_stabilizer
  phrase_buffer :: phrase_buffer
  orchestrator_metrics :: metrics_collector
  is_ready :: bool
  audio_buffer :: "real list list"

definition PipelineOrchestrator :: "config \<Rightarrow> real \<Rightarrow> pipeline_orchestrator" where
  "PipelineOrchestrator cfg now =
     \<lparr>config = cfg, vad = None, asr = None, translator = None, tts = None,
      stabilizer = TextStabilizer 0.85 10,
      phrase_buffer = PhraseBuffer 20 default_delimiters,
      orchestrator_metrics = MetricsCollector 100 now,
      is_ready = False, audio_buffer = []\<rparr>"

definition asr_initialize :: "collaborators \<Rightarrow> asr_engine \<Rightarrow> pipeline_error + asr_engine" where
  "asr_initialize env engine =
     (case engine of
        ASREngine loaded language \<Rightarrow>
          if whisper_load_raises env then Inl LoadError else Inr (ASREngine True language)
      | MockASR \<Rightarrow> Inr MockASR)"

definition translator_initialize :: "collaborators \<Rightarrow> translator_engine
    \<Rightarrow> pipeline_error + translator_engine" where
  "translator_initialize env engine = Inr engine"

definition tts_initialize :: "collaborators \<Rightarrow> tts_engine \<Rightarrow> pipeline_error + tts_engine" where
  "tts_initialize env engine =
     (case engine of
        TTSEngine loaded \<Rightarrow>
          if \<not> PIPER_AVAILABLE env then Inr (TTSEngine loaded)
          else if piper_voice_loads env then Inr (TTSEngine True)
          else Inr (TTSEngine loaded)
      | MockTTS \<Rightarrow> Inr MockTTS)"

definition initialize :: "collaborators \<Rightarrow> pipeline_orchestrator \<Rightarrow> pipeline_orchestrator" where
  "initialize env self =
     (let cfg = config self;
          vad0 = (if VAD_ENABLED cfg
                  then Detector (vad_initialize
                         (VoiceActivityDetector (SAMPLE_RATE cfg) (VAD_THRESHOLD cfg)
                            (VAD_MIN_SPEECH_DURATION_MS cfg) (VAD_MIN_SILENCE_DURATION_MS cfg)
                            (VAD_SPEECH_PAD_MS cfg))
                         (silero_model env))
                  else Passthrough (PassthroughVAD (SAMPLE_RATE cfg) (CHUNK_DURATION_MS cfg)));
          asr0 = (case asr_initialize env (ASREngine False (SOURCE_LANGUAGE cfg)) of
                    Inr engine \<Rightarrow> engine
                  | Inl e \<Rightarrow> MockASR);
          translator0 =
            (case translator_initialize env
                    (Translator (SOURCE_LANGUAGE cfg) (TARGET_LANGUAGE cfg)) of
               Inr engine \<Rightarrow> engine
             | Inl e \<Rightarrow> MockTranslator (SOURCE_LANGUAGE cfg) (TARGET_LANGUAGE cfg));
          tts0 = (case tts_initialize env (TTSEngine False) of
                    Inr engine \<Rightarrow> engine
                  | Inl e \<Rightarrow> MockTTS)
      in self\<lparr>vad := Some vad0, asr := Some asr0, translator := Some translator0,
              tts := Some tts0, is_ready := True\<rparr>)"

definition transcribe :: "collaborators \<Rightarrow> asr_engine \<Rightarrow> real list \<Rightarrow> string
    \<Rightarrow> pipeline_error + transcription_result" where
  "transcribe env engine audio language =
     (case engine of
        ASREngine loaded self_language \<Rightarrow>
          if \<not> loaded then Inl RuntimeError
          else (let lang = (if language \<noteq> [] then language else self_language)
                in case whisper_transcribe_sync env audio lang of
                     Some result \<Rightarrow> Inr result
                   | None \<Rightarrow> Inr \<lparr>tr_text = [], tr_language = lang, tr_confidence = 0\<rparr>)
      | MockASR \<Rightarrow>
          Inr \<lparr>tr_text = ''[Mock transcription]'',
               tr_language = (if language \<noteq> [] then language else ''en''),
               tr_confidence = 1\<rparr>)"

definition translate :: "collaborators \<Rightarrow> translator_engine \<Rightarrow> string \<Rightarrow> string" where
  "translate env engine text =
     (case engine of
        Translator source_lang target_lang \<Rightarrow>
          if \<not> ARGOS_AVAILABLE env then text
          else if text = [] \<or> strip text = [] then text
          else (case argos_translate env text source_lang target_lang of
                  Some translated \<Rightarrow> translated
                | None \<Rightarrow> text)
      | MockTranslator source_lang target_lang \<Rightarrow>
          ''['' @ str_upper env target_lang @ ''] '' @ text)"

definition synthesize :: "collaborators \<Rightarrow> tts_engine \<Rightarrow> string \<Rightarrow> bytes option" where
  "synthesize env engine text =
     (case engine of
        TTSEngine loaded \<Rightarrow>
          if \<not> PIPER_AVAILABLE env \<or> \<not> loaded then None
          else if text = [] \<or> strip text = [] then None
          else piper_synthesize_sync env text
      | MockTTS \<Rightarrow> Some (mock_wav env))"

record bundle_metrics =
  bm_vad_latency_ms :: real
  bm_asr_latency_ms :: real
  bm_translation_latency_ms :: real
  bm_tts_latency_ms :: real
  bm_total_latency_ms :: real
  bm_audio_duration_ms :: real
  bm_transcription_confidence :: real

record result_bundle =
  transcription :: string
  translation :: string
  audio_bytes :: "bytes option"
  source_language :: string
  target_language :: string
  result_metrics :: bundle_metrics
  is_final :: bool

datatype process_result =
    NoResult
  | VadStatus bool real
  | ResultBundle result_bundle
  | ProcessingError pipeline_error

definition component_process :: "vad_component \<Rightarrow> real list
    \<Rightarrow> (bool \<times> real list option) \<times> vad_component" where
  "component_process v audio_array =
     (case v of
        Detector d \<Rightarrow> (let (r, d1) = vad_process d (Float32 audio_array) in (r, Detector d1))
      | Passthrough p \<Rightarrow> (let (r, p1) = passthrough_process p audio_array in (r, Passthrough p1)))"

definition record_latencies :: "metrics_collector \<Rightarrow> stage_latencies
    \<Rightarrow> metrics_error + metrics_collector" where
  "record_latencies m lat =
     (case record_value m ''pipeline_latency'' (total_latency_ms lat) of
        Inl e \<Rightarrow> Inl e
      | Inr m1 \<Rightarrow>
     (case record_value m1 ''asr_latency'' (asr_latency_ms lat) of
        Inl e \<Rightarrow> Inl e
      | Inr m2 \<Rightarrow>
     (case record_value m2 ''translation_latency'' (translation_latency_ms lat) of
        Inl e \<Rightarrow> Inl e
      | Inr m3 \<Rightarrow> record_value m3 ''tts_latency'' (tts_latency_ms lat))))"

definition process_audio :: "collaborators \<Rightarrow> stage_latencies \<Rightarrow> pipeline_orchestrator
    \<Rightarrow> bytes \<Rightarrow> process_result \<times> pipeline_orchestrator" where
  "process_audio env lat self audio_bytes_in =
     (if \<not> is_ready self then (NoResult, self)
      else (case bytes_to_array audio_bytes_in of
        None \<Rightarrow> (NoResult, self)
      | Some audio_array \<Rightarrow>
        if length audio_array = 0 then (NoResult, self)
        else (case vad self of
          None \<Rightarrow> (ProcessingError AttributeError, self)
        | Some v \<Rightarrow>
          (let ((is_speech, speech_segment), v1) = component_process v audio_array;
               self1 = self\<lparr>vad := Some v1\<rparr>
           in case speech_segment of
             None \<Rightarrow> (VadStatus is_speech (vad_latency_ms lat), self1)
           | Some segment \<Rightarrow>
             (case asr self1 of
               None \<Rightarrow> (ProcessingError AttributeError, self1)
             | Some asr_engine \<Rightarrow>
               (case transcribe env asr_engine segment (SOURCE_LANGUAGE (config self1)) of
                 Inl e \<Rightarrow> (ProcessingError e, self1)
               | Inr transcription_result \<Rightarrow>
                 if tr_text transcription_result = [] then (NoResult, self1)
                 else
                   (let (stabilizer_result, st1) =
                          process (difflib env) (stabilizer self1)
                            (tr_text transcription_result) True;
                        self2 = self1\<lparr>stabilizer := st1\<rparr>;
                        stable = res_stable_text stabilizer_result
                    in case translator self2 of
                      None \<Rightarrow> (ProcessingError AttributeError, self2)
                    | Some translator_engine \<Rightarrow>
                      (let translated_text = translate env translator_engine stable
                       in case tts self2 of
                          None \<Rightarrow> (ProcessingError AttributeError, self2)
                        | Some tts_engine \<Rightarrow>
                          (let audio_out = synthesize env tts_engine translated_text
                           in if SAMPLE_RATE (config self2) = 0
                            then (ProcessingError ZeroDivisionError, self2)
                            else
                              (case record_latencies (orchestrator_metrics self2) lat of
                                Inl e \<Rightarrow> (ProcessingError (CollectorError e), self2)
                              | Inr m1 \<Rightarrow>
                                (ResultBundle
                                   \<lparr>transcription = stable,
                                    translation = translated_text,
                                    audio_bytes = audio_out,
                                    source_language = SOURCE_LANGUAGE (config self2),
                                    target_language = TARGET_LANGUAGE (config self2),
                                    result_metrics =
                                      \<lparr>bm_vad_latency_ms = vad_latency_ms lat,
                                       bm_asr_latency_ms = asr_latency_ms lat,
                                       bm_translation_latency_ms = translation_latency_ms lat,
                                       bm_tts_latency_ms = tts_latency_ms lat,
                                       bm_total_latency_ms = total_latency_ms lat,
                                       bm_audio_duration_ms =
                                         real (length segment)
                                           / real_of_int (SAMPLE_RATE (config self2)) * 1000,
                                       bm_transcription_confidence =
                                         tr_confidence transcription_result\<rparr>,
                                    is_final = True\<rparr>,
                                 self2\<lparr>orchestrator_metrics := m1\<rparr>)))))))))))"

datatype vad_state =
    NoVadState
  | DetectorState bool nat nat nat
  | PassthroughState nat nat int

record metrics_summary =
  uptime_seconds :: real
  summary_metrics :: "string \<rightharpoonup> stats"
  summary_counters :: "string \<rightharpoonup> int"

definition get_summary :: "metrics_collector \<Rightarrow> real \<Rightarrow> metrics_summary" where
  "get_summary self now =
     \<lparr>uptime_seconds = now - start_time self,
      summary_metrics = (\<lambda>metric_name. case get_stats self metric_name of
                                           Inr (Some st) \<Rightarrow> Some st
                                         | _ \<Rightarrow> None),
      summary_counters = counters self\<rparr>"

record pipeline_status =
  ready :: bool
  status_vad_state :: vad_state
  stabilizer_state :: "nat \<times> nat \<times> nat"
  status_metrics :: metrics_summary

definition get_state :: "vad_component \<Rightarrow> vad_state" where
  "get_state v =
     (case v of
        Detector d \<Rightarrow> DetectorState (is_speaking d) (speech_frames d) (silence_frames d)
                        (length (speech_buffer d))
      | Passthrough p \<Rightarrow> PassthroughState (length (pt_buffer p)) (total_samples p)
                           (target_samples p))"

definition stabilizer_get_state :: "text_stabilizer \<Rightarrow> nat \<times> nat \<times> nat" where
  "stabilizer_get_state s =
     (length (stable_text s), length (previous_text s), consecutive_stable_count s)"

definition get_status :: "pipeline_orchestrator \<Rightarrow> real \<Rightarrow> pipeline_status" where
  "get_status self now =
     \<lparr>ready = is_ready self,
      status_vad_state = (case vad self of Some v \<Rightarrow> get_state v | None \<Rightarrow> NoVadState),
      stabilizer_state = stabilizer_get_state (stabilizer self),
      status_metrics = get_summary (orchestrator_metrics self) now\<rparr>"

text \<open>
  An orchestrator runs in degraded mode when one of its engines is a stub. The source has
  no such attribute; the predicate states what a degraded-mode flag would have to report.
\<close>

definition degraded :: "pipeline_orchestrator \<Rightarrow> bool" where
  "degraded self =
     (asr self = Some MockASR
      \<or> (case translator self of Some (MockTranslator s t) \<Rightarrow> True | _ \<Rightarrow> False)
      \<or> tts self = Some MockTTS)"


text \<open>
  Example: VAD disabled, 16 kHz, chunks of 1 ms (16 samples). In \<open>working_collaborators\<close>
  the Whisper model loads; in \<open>failing_collaborators\<close> loading it raises.
  \<open>silent_bytes\<close> are 32 zero bytes, which decode to 16 zero samples. \<open>ascii_upper\<close>
  capitalises the letters a to z, as \<open>str.upper\<close> does on ASCII texts.
\<close>

definition ascii_upper :: "string \<Rightarrow> string" where
  "ascii_upper s =
     map (\<lambda>c. case map_of (zip ''abcdefghijklmnopqrstuvwxyz'' ''ABCDEFGHIJKLMNOPQRSTUVWXYZ'') c of
                 Some u \<Rightarrow> u
               | None \<Rightarrow> c) s"

definition example_config :: config where
  "example_config =
     \<lparr>SAMPLE_RATE = 16000, CHUNK_DURATION_MS = 1, VAD_ENABLED = False, VAD_THRESHOLD = 1 / 2,
      VAD_MIN_SPEECH_DURATION_MS = 250, VAD_MIN_SILENCE_DURATION_MS = 300,
      VAD_SPEECH_PAD_MS = 100, SOURCE_LANGUAGE = ''en'', TARGET_LANGUAGE = ''es''\<rparr>"

definition working_collaborators :: collaborators where
  "working_collaborators =
     \<lparr>silero_model = None,
      whisper_load_raises = False,
      whisper_transcribe_sync = (\<lambda>audio language.
         Some \<lparr>tr_text = ''hello'', tr_language = language, tr_confidence = 1\<rparr>),
      ARGOS_AVAILABLE = True,
      argos_translate = (\<lambda>text source_lang target_lang. Some ''hola''),
      PIPER_AVAILABLE = True,
      piper_voice_loads = True,
      piper_synthesize_sync = (\<lambda>text. Some [82, 73, 70, 70]),
      mock_wav = [82, 73, 70, 70],
      difflib = prefix_matcher,
      str_upper = ascii_upper\<rparr>"

definition failing_collaborators :: collaborators where
  "failing_collaborators = working_collaborators\<lparr>whisper_load_raises := True\<rparr>"

definition example_latencies :: stage_latencies where
  "example_latencies =
     \<lparr>vad_latency_ms = 1, asr_latency_ms = 100, translation_latency_ms = 50,
      tts_latency_ms = 100, total_latency_ms = 251\<rparr>"

definition full_orchestrator :: pipeline_orchestrator where
  "full_orchestrator = initialize working_collaborators (PipelineOrchestrator example_config 0)"

definition degraded_orchestrator :: pipeline_orchestrator where
  "degraded_orchestrator = initialize failing_collaborators (PipelineOrchestrator example_config 0)"

definition silent_bytes :: bytes where
  "silent_bytes = [0, 0, 0, 0, 0, 0, 0, 0, 0, 0, 0, 0, 0, 0, 0, 0,
                   0, 0, 0, 0, 0, 0, 0, 0, 0, 0, 0, 0, 0, 0, 0, 0]"

definition silent_samples :: "real list" where
  "silent_samples = [0, 0, 0, 0, 0, 0, 0, 0, 0, 0, 0, 0, 0, 0, 0, 0]"

section \<open>Properties of the text stabilizer\<close>

lemma find_stable_prefix_is_prefix:
  "\<exists>n. find_stable_prefix m text1 text2 = take n text2"
proof (cases "text1 = [] \<or> text2 = []")
  case True
  then have "find_stable_prefix m text1 text2 = take 0 text2"
    by (simp add: find_stable_prefix_def)
  then show ?thesis by blast
next
  case False
  show ?thesis
  proof (cases "get_matching_blocks m text1 text2")
    case Nil
    with False have "find_stable_prefix m text1 text2 = take 0 text2"
      by (simp add: find_stable_prefix_def)
    then show ?thesis by blast
  next
    case (Cons blk rest)
    obtain a b n where blk: "blk = (a, b, n)" by (cases blk) auto
    show ?thesis
    proof (cases "a = 0 \<and> b = 0")
      case True
      with False Cons blk have "find_stable_prefix m text1 text2 = take n text2"
        by (simp add: find_stable_prefix_def)
      then show ?thesis by blast
    next
      case False
      with \<open>\<not> (text1 = [] \<or> text2 = [])\<close> Cons blk
      have "find_stable_prefix m text1 text2 = take 0 text2"
        by (auto simp add: find_stable_prefix_def)
      then show ?thesis by blast
    qed
  qed
qed

text \<open>
  C9. For every stabilizer state and every non-empty text, a final call returns the empty
  string as \<open>incremental_text\<close>: \<open>stable_text\<close> has already been overwritten with the
  new text when the length used for the slice is read.
\<close>

theorem final_incremental_text_empty:
  "new_text \<noteq> [] \<Longrightarrow> res_incremental_text (fst (process m self new_text True)) = []"
  by (simp add: process_def Let_def)

theorem final_incremental_text_empty_witness:
  "''hello world'' \<noteq> [] \<and>
   res_incremental_text
     (fst (process prefix_matcher
            (snd (process prefix_matcher (TextStabilizer 0.85 10) ''hello'' True))
            ''hello world'' True)) = []"
  using final_incremental_text_empty
    [of "''hello world''" prefix_matcher
        "snd (process prefix_matcher (TextStabilizer 0.85 10) ''hello'' True)"]
  by simp

lemma after_final_eq:
  "after_final = \<lparr>similarity_threshold = 0.85, min_stable_length = 10,
     previous_text = hypothesis_a, stable_text = hypothesis_a,
     consecutive_stable_count = 0\<rparr>"
  by (simp add: after_final_def process_def TextStabilizer_def hypothesis_a_def)

lemma common_prefix_a_b:
  "common_prefix hypothesis_a hypothesis_b = ''hello world, this is a tes''"
  by (simp add: hypothesis_a_def hypothesis_b_def)

lemma similarity_a_b:
  "calculate_similarity prefix_matcher hypothesis_a hypothesis_b = 52 / 54"
  by (simp add: calculate_similarity_def prefix_matcher_def common_prefix_a_b)
     (simp add: hypothesis_a_def hypothesis_b_def)

lemma stable_prefix_a_b:
  "find_stable_prefix prefix_matcher hypothesis_a hypothesis_b
     = ''hello world, this is a tes''"
  by (simp add: find_stable_prefix_def prefix_matcher_def common_prefix_a_b)
     (simp add: hypothesis_a_def hypothesis_b_def)

lemma process_partial_eq:
  "process prefix_matcher after_final hypothesis_b False =
     (\<lparr>res_stable_text = hypothesis_a, res_incremental_text = [],
       res_confidence = 52 / 54, res_is_stable = True,
       res_full_text = Some hypothesis_b\<rparr>,
      \<lparr>similarity_threshold = 0.85, min_stable_length = 10,
       previous_text = hypothesis_b, stable_text = hypothesis_a,
       consecutive_stable_count = 1\<rparr>)"
proof -
  have ne: "hypothesis_b \<noteq> []" by (simp add: hypothesis_b_def)
  have len: "length hypothesis_a = 27" by (simp add: hypothesis_a_def)
  show ?thesis
    unfolding process_def after_final_eq
    by (simp add: ne Let_def similarity_a_b stable_prefix_a_b len)
qed

lemma after_partial_eq:
  "after_partial = \<lparr>similarity_threshold = 0.85, min_stable_length = 10,
     previous_text = hypothesis_b, stable_text = hypothesis_a,
     consecutive_stable_count = 1\<rparr>"
  by (simp add: after_partial_def process_partial_eq)

text \<open>
  C2, as stated, fails for the empty text. \<open>process\<close> returns early on an empty text,
  before it looks at \<open>is_final\<close>: from the state reached by one final and one non-final
  call, a final call with the empty text leaves \<open>stable_text\<close> at the 27 characters of
  \<open>hypothesis_a\<close> and the counter at 1, and reports \<open>hypothesis_a\<close>, not the empty
  input.
\<close>

theorem final_empty_text_counterexample:
  "stable_text (snd (process prefix_matcher after_partial [] True)) = hypothesis_a
   \<and> hypothesis_a \<noteq> []
   \<and> consecutive_stable_count (snd (process prefix_matcher after_partial [] True)) = 1
   \<and> res_stable_text (fst (process prefix_matcher after_partial [] True)) = hypothesis_a"
  by (simp add: process_def after_partial_eq) (simp add: hypothesis_a_def)

text \<open>
  C2, amended: for every stabilizer state and every non-empty text, a final call sets
  \<open>stable_text\<close> to exactly that text, resets \<open>consecutive_stable_count\<close> to 0 and
  reports that text as the returned \<open>stable_text\<close>, whatever the state was before.
\<close>

theorem final_sets_stable_text:
  "new_text \<noteq> [] \<Longrightarrow>
     stable_text (snd (process m self new_text True)) = new_text
     \<and> consecutive_stable_count (snd (process m self new_text True)) = 0
     \<and> res_stable_text (fst (process m self new_text True)) = new_text"
  by (simp add: process_def Let_def)

theorem final_sets_stable_text_witness:
  "''bye'' \<noteq> []
   \<and> stable_text (snd (process prefix_matcher after_partial ''bye'' True)) = ''bye''
   \<and> consecutive_stable_count (snd (process prefix_matcher after_partial ''bye'' True)) = 0
   \<and> res_stable_text (fst (process prefix_matcher after_partial ''bye'' True)) = ''bye''"
  using final_sets_stable_text [of "''bye''" prefix_matcher after_partial]
  by simp

text \<open>
  C5, as stated, fails. The state \<open>after_final\<close> is reachable from the reset state by
  one final call. The next non-final call, with a text that differs in its last character,
  is judged stable (similarity 52/54, common prefix of 26 characters), raises the counter
  to 1 only, and finds a prefix that is not longer than the current \<open>stable_text\<close>: no
  commit happens, and the \<open>stable_text\<close> held and returned is still \<open>hypothesis_a\<close>,
  which is not a prefix of the text just given.
\<close>

theorem stable_without_commit_counterexample:
  "res_is_stable (fst (process prefix_matcher after_final hypothesis_b False))
   \<and> res_stable_text (fst (process prefix_matcher after_final hypothesis_b False))
       = stable_text (snd (process prefix_matcher after_final hypothesis_b False))
   \<and> stable_text (snd (process prefix_matcher after_final hypothesis_b False))
       \<noteq> take (length (stable_text
              (snd (process prefix_matcher after_final hypothesis_b False)))) hypothesis_b"
  by (simp add: process_partial_eq) (simp add: hypothesis_a_def hypothesis_b_def)

text \<open>
  C5, amended: for every stabilizer state and every non-final call with a non-empty text,
  whenever the call commits, that is whenever the counter after the call is at least 2 or
  the prefix computed for the call is strictly longer than the \<open>stable_text\<close> held before
  it, the \<open>stable_text\<close> held after the call is a prefix of the text just given, starting
  at position 0; whenever the call does not commit, in particular when it is judged
  stable without committing, \<open>stable_text\<close> is left as it was. In both cases the
  \<open>stable_text\<close> returned is the one held after the call.
\<close>

theorem committed_stable_text_is_prefix:
  assumes "new_text \<noteq> []"
  shows "(consecutive_stable_count (snd (process m self new_text False)) \<ge> 2
          \<or> length (find_stable_prefix m (previous_text self) new_text)
              > length (stable_text self)
          \<longrightarrow> stable_text (snd (process m self new_text False))
                = take (length (stable_text (snd (process m self new_text False)))) new_text)
       \<and> (\<not> (consecutive_stable_count (snd (process m self new_text False)) \<ge> 2
              \<or> length (find_stable_prefix m (previous_text self) new_text)
                  > length (stable_text self))
          \<longrightarrow> stable_text (snd (process m self new_text False)) = stable_text self)
       \<and> res_stable_text (fst (process m self new_text False))
           = stable_text (snd (process m self new_text False))"
proof (intro conjI impI)
  obtain n where n: "find_stable_prefix m (previous_text self) new_text = take n new_text"
    using find_stable_prefix_is_prefix by blast
  show "stable_text (snd (process m self new_text False))
          = take (length (stable_text (snd (process m self new_text False)))) new_text"
    if c: "consecutive_stable_count (snd (process m self new_text False)) \<ge> 2
          \<or> length (find_stable_prefix m (previous_text self) new_text)
              > length (stable_text self)"
  proof -
    have st: "stable_text (snd (process m self new_text False)) = take n new_text"
      using assms c by (auto simp add: process_def Let_def n split: if_splits)
    have "take n new_text = take (length (take n new_text)) new_text"
      by (simp add: min_def)
    with st show ?thesis by simp
  qed
  show "stable_text (snd (process m self new_text False)) = stable_text self"
    if c: "\<not> (consecutive_stable_count (snd (process m self new_text False)) \<ge> 2
              \<or> length (find_stable_prefix m (previous_text self) new_text)
                  > length (stable_text self))"
    using assms c by (auto simp add: process_def Let_def split: if_splits)
  show "res_stable_text (fst (process m self new_text False))
           = stable_text (snd (process m self new_text False))"
    using assms by (simp add: process_def Let_def)
qed

theorem committed_stable_text_is_prefix_witness:
  "hypothesis_a \<noteq> [] \<and> hypothesis_b \<noteq> []
   \<and> (consecutive_stable_count (snd (process prefix_matcher after_partial hypothesis_a False)) \<ge> 2
      \<or> length (find_stable_prefix prefix_matcher (previous_text after_partial) hypothesis_a)
          > length (stable_text after_partial))
   \<and> stable_text (snd (process prefix_matcher after_partial hypothesis_a False))
       = take (length (stable_text
               (snd (process prefix_matcher after_partial hypothesis_a False)))) hypothesis_a
   \<and> res_stable_text (fst (process prefix_matcher after_partial hypothesis_a False))
       = stable_text (snd (process prefix_matcher after_partial hypothesis_a False))
   \<and> res_is_stable (fst (process prefix_matcher after_final hypothesis_b False))
   \<and> \<not> (consecutive_stable_count (snd (process prefix_matcher after_final hypothesis_b False)) \<ge> 2
         \<or> length (find_stable_prefix prefix_matcher (previous_text after_final) hypothesis_b)
             > length (stable_text after_final))
   \<and> stable_text (snd (process prefix_matcher after_final hypothesis_b False))
       = stable_text after_final"
proof -
  have ne: "hypothesis_a \<noteq> []" by (simp add: hypothesis_a_def)
  have ne_b: "hypothesis_b \<noteq> []" by (simp add: hypothesis_b_def)
  have cp: "common_prefix hypothesis_b hypothesis_a = ''hello world, this is a tes''"
    by (simp add: hypothesis_a_def hypothesis_b_def)
  have sim: "calculate_similarity prefix_matcher hypothesis_b hypothesis_a = 52 / 54"
    by (simp add: calculate_similarity_def prefix_matcher_def cp)
       (simp add: hypothesis_a_def hypothesis_b_def)
  have pre: "find_stable_prefix prefix_matcher hypothesis_b hypothesis_a
               = ''hello world, this is a tes''"
    by (simp add: find_stable_prefix_def prefix_matcher_def cp)
       (simp add: hypothesis_a_def hypothesis_b_def)
  have cnt: "consecutive_stable_count
               (snd (process prefix_matcher after_partial hypothesis_a False)) \<ge> 2"
    unfolding process_def after_partial_eq
    by (simp add: ne Let_def sim pre)
  then have hyp: "consecutive_stable_count
        (snd (process prefix_matcher after_partial hypothesis_a False)) \<ge> 2
      \<or> length (find_stable_prefix prefix_matcher (previous_text after_partial) hypothesis_a)
          > length (stable_text after_partial)"
    by blast
  have stable_b: "res_is_stable (fst (process prefix_matcher after_final hypothesis_b False))"
    by (simp add: process_partial_eq)
  have len_a: "length hypothesis_a = 27" by (simp add: hypothesis_a_def)
  have no_commit: "\<not> (consecutive_stable_count
          (snd (process prefix_matcher after_final hypothesis_b False)) \<ge> 2
        \<or> length (find_stable_prefix prefix_matcher (previous_text after_final) hypothesis_b)
            > length (stable_text after_final))"
    by (simp add: process_partial_eq) (simp add: after_final_eq stable_prefix_a_b len_a)
  from committed_stable_text_is_prefix [OF ne, of prefix_matcher after_partial] hyp
  have a: "stable_text (snd (process prefix_matcher after_partial hypothesis_a False))
       = take (length (stable_text
               (snd (process prefix_matcher after_partial hypothesis_a False)))) hypothesis_a"
    and b: "res_stable_text (fst (process prefix_matcher after_partial hypothesis_a False))
       = stable_text (snd (process prefix_matcher after_partial hypothesis_a False))"
    by blast+
  from committed_stable_text_is_prefix [OF ne_b, of prefix_matcher after_final] no_commit
  have c: "stable_text (snd (process prefix_matcher after_final hypothesis_b False))
       = stable_text after_final"
    by blast
  from ne ne_b hyp a b stable_b no_commit c show ?thesis
    by blast
qed

section \<open>Properties of the phrase buffer\<close>

lemma rfind_bounds: "- 1 \<le> rfind s c \<and> rfind s c < int (length s)"
  by (induction s) (auto simp add: Let_def)

lemma rfind_nth: "0 \<le> rfind s c \<Longrightarrow> s ! nat (rfind s c) = c"
proof (induction s)
  case Nil
  then show ?case by simp
next
  case (Cons x xs)
  show ?case
  proof (cases "0 \<le> rfind xs c")
    case True
    then have "nat (rfind xs c + 1) = Suc (nat (rfind xs c))" by simp
    with True Cons.IH show ?thesis by (simp add: Let_def)
  next
    case False
    with Cons.prems show ?thesis by (simp add: Let_def split: if_splits)
  qed
qed

lemma rfind_greatest: "i < length s \<Longrightarrow> s ! i = c \<Longrightarrow> int i \<le> rfind s c"
proof (induction s arbitrary: i)
  case Nil
  then show ?case by simp
next
  case (Cons x xs)
  show ?case
  proof (cases i)
    case 0
    with Cons.prems show ?thesis by (simp add: Let_def)
  next
    case (Suc j)
    with Cons.prems have "int j \<le> rfind xs c" by (simp add: Cons.IH)
    with Suc show ?thesis by (simp add: Let_def)
  qed
qed

lemma last_delimiter_cases:
  "last_delimiter buf ds p0 = p0 \<or> (\<exists>d \<in> set ds. last_delimiter buf ds p0 = rfind buf d)"
  by (induction ds arbitrary: p0) (auto simp add: Let_def)

lemma last_delimiter_lower: "p0 \<le> last_delimiter buf ds p0"
proof (induction ds arbitrary: p0)
  case Nil
  then show ?case by simp
next
  case (Cons d ds)
  have "(if rfind buf d > p0 then rfind buf d else p0)
          \<le> last_delimiter buf ds (if rfind buf d > p0 then rfind buf d else p0)"
    by (rule Cons.IH)
  then show ?case by (simp add: Let_def split: if_splits)
qed

lemma last_delimiter_upper: "d \<in> set ds \<Longrightarrow> rfind buf d \<le> last_delimiter buf ds p0"
proof (induction ds arbitrary: p0)
  case Nil
  then show ?case by simp
next
  case (Cons e es)
  let ?p = "if rfind buf e > p0 then rfind buf e else p0"
  show ?case
  proof (cases "d = e")
    case True
    have "rfind buf e \<le> ?p" by simp
    also have "?p \<le> last_delimiter buf es ?p" by (rule last_delimiter_lower)
    finally show ?thesis using True by (simp add: Let_def)
  next
    case False
    with Cons.prems have "d \<in> set es" by simp
    then have "rfind buf d \<le> last_delimiter buf es ?p" by (rule Cons.IH)
    then show ?thesis by (simp add: Let_def)
  qed
qed

lemma last_delimiter_found:
  assumes "0 \<le> last_delimiter buf ds (- 1)"
  shows "nat (last_delimiter buf ds (- 1)) < length buf
         \<and> buf ! nat (last_delimiter buf ds (- 1)) \<in> set ds
         \<and> (\<forall>j. nat (last_delimiter buf ds (- 1)) < j \<and> j < length buf \<longrightarrow> buf ! j \<notin> set ds)"
proof -
  let ?p = "last_delimiter buf ds (- 1)"
  from assms last_delimiter_cases [of buf ds "- 1"]
  obtain d where d: "d \<in> set ds" "?p = rfind buf d" by auto
  from d(2) rfind_bounds [of buf d] assms have lt: "nat ?p < length buf" by simp
  from d(2) assms rfind_nth [of buf d] have "buf ! nat ?p = d" by simp
  with d(1) have mem: "buf ! nat ?p \<in> set ds" by simp
  have right: "\<forall>j. nat ?p < j \<and> j < length buf \<longrightarrow> buf ! j \<notin> set ds"
  proof (intro allI impI notI)
    fix j assume j: "nat ?p < j \<and> j < length buf" and "buf ! j \<in> set ds"
    then have "rfind buf (buf ! j) \<le> ?p" by (simp add: last_delimiter_upper)
    moreover from j have "int j \<le> rfind buf (buf ! j)" by (simp add: rfind_greatest)
    ultimately have "int j \<le> ?p" by simp
    with j show False by linarith
  qed
  from lt mem right show ?thesis by blast
qed

lemma dropWhile_keeps_last:
  "\<not> P d \<Longrightarrow> \<exists>ys. dropWhile P (xs @ [d]) = ys @ [d]"
  by (induction xs) auto

lemma strip_keeps_last:
  assumes "\<not> isspace d"
  shows "\<exists>ys. strip (xs @ [d]) = ys @ [d]"
proof -
  from dropWhile_keeps_last [of isspace d xs, OF assms]
  obtain ys where ys: "dropWhile isspace (xs @ [d]) = ys @ [d]" ..
  have "strip (xs @ [d]) = rev (dropWhile isspace (rev (ys @ [d])))"
    unfolding strip_def ys ..
  also have "rev (ys @ [d]) = d # rev ys" by simp
  also have "dropWhile isspace (d # rev ys) = d # rev ys" using assms by simp
  also have "rev (d # rev ys) = ys @ [d]" by simp
  finally show ?thesis by blast
qed

lemma add_first:
  "add (PhraseBuffer 10 default_delimiters) ''Hello world. How are''
     = (Some ''Hello world.'',
        \<lparr>min_phrase_length = 10, phrase_delimiters = default_delimiters,
         buffer = ''How are''\<rparr>)"
  by (simp add: add_def PhraseBuffer_def default_delimiters_def strip_def isspace_def)

lemma buffer_after_first_eq:
  "buffer_after_first = \<lparr>min_phrase_length = 10, phrase_delimiters = default_delimiters,
     buffer = ''How are''\<rparr>"
  by (simp add: buffer_after_first_def add_first)

lemma add_second:
  "add buffer_after_first ''you?''
     = (Some ''How areyou?'',
        \<lparr>min_phrase_length = 10, phrase_delimiters = default_delimiters, buffer = []\<rparr>)"
  unfolding buffer_after_first_eq
  by (simp add: add_def default_delimiters_def strip_def isspace_def)

lemma buffer_after_second_eq:
  "buffer_after_second = \<lparr>min_phrase_length = 10, phrase_delimiters = default_delimiters,
     buffer = []\<rparr>"
  by (simp add: buffer_after_second_def add_second)

text \<open>
  C3, as stated, fails. After the first call the buffer holds \<open>How are\<close>; the second call
  appends \<open>you?\<close> with no separator, so the buffer is \<open>How areyou?\<close>, 11 characters
  with the question mark at index 10, which is not below the minimum phrase length 10. The
  second call therefore emits a phrase, and \<open>flush\<close> afterwards does not return
  \<open>How are you?\<close>.
\<close>

theorem second_add_emits_counterexample:
  "fst (add buffer_after_first ''you?'') \<noteq> None
   \<and> fst (flush buffer_after_second) \<noteq> ''How are you?''"
  by (simp add: add_second buffer_after_second_eq flush_def)

text \<open>
  C3, amended: starting from an empty phrase buffer with minimum phrase length 10,
  \<open>add("Hello world. How are")\<close> emits \<open>Hello world.\<close> and leaves \<open>How are\<close> in the
  buffer; the following \<open>add("you?")\<close> emits \<open>How areyou?\<close> and leaves the buffer empty,
  so that \<open>flush()\<close> returns the empty string. \<open>Hello world.\<close> is emitted once, by the
  first call.
\<close>

theorem hello_world_run:
  "fst (add (PhraseBuffer 10 default_delimiters) ''Hello world. How are'')
     = Some ''Hello world.''
   \<and> buffer buffer_after_first = ''How are''
   \<and> fst (add buffer_after_first ''you?'') = Some ''How areyou?''
   \<and> buffer buffer_after_second = []
   \<and> fst (flush buffer_after_second) = []"
proof -
  have b1: "buffer buffer_after_first = ''How are''"
    by (simp add: buffer_after_first_eq)
  have b2: "buffer buffer_after_second = []"
    by (simp add: buffer_after_second_eq)
  have fl: "fst (flush buffer_after_second) = []"
    by (simp add: flush_def b2)
  from b1 b2 fl show ?thesis
    by (simp add: add_first add_second)
qed

text \<open>
  C6, as stated, fails when the right-most delimiter is a whitespace character. The
  newline is one of the default delimiters, and the emitted phrase is passed through
  \<open>strip()\<close>: with the default settings (minimum phrase length 20), adding a line of 21
  characters followed by a newline emits the line without the newline, and the last
  character of the emitted phrase is not a delimiter.
\<close>

theorem newline_delimiter_counterexample:
  "fst (add (PhraseBuffer 20 default_delimiters) (''This is one full line'' @ [CHR 0x0A]))
     = Some ''This is one full line''
   \<and> last ''This is one full line'' \<notin> set default_delimiters"
  by (simp add: add_def PhraseBuffer_def default_delimiters_def strip_def isspace_def)

text \<open>
  C6, amended: for a phrase buffer whose minimum phrase length is not negative, every
  phrase emitted by \<open>add\<close> is the stripped prefix of the pre-split buffer (the old buffer
  followed by the added text) up to and including the right-most delimiter; the index of
  that delimiter in the pre-split buffer is at least the minimum phrase length; and the
  phrase ends exactly at that delimiter (its last character is the delimiter) whenever
  the delimiter is not a whitespace character. It holds from every buffer content, hence
  along every sequence of \<open>add\<close> calls.
\<close>

theorem emitted_phrase_ends_at_delimiter:
  assumes "add self text = (Some phrase, self')"
    and "0 \<le> min_phrase_length self"
  shows "min_phrase_length self \<le> last_delimiter (buffer self @ text) (phrase_delimiters self) (- 1)
     \<and> nat (last_delimiter (buffer self @ text) (phrase_delimiters self) (- 1))
         < length (buffer self @ text)
     \<and> (buffer self @ text) ! nat (last_delimiter (buffer self @ text) (phrase_delimiters self) (- 1))
         \<in> set (phrase_delimiters self)
     \<and> phrase = strip (take (nat (last_delimiter (buffer self @ text) (phrase_delimiters self) (- 1)) + 1)
                          (buffer self @ text))
     \<and> (\<not> isspace ((buffer self @ text)
              ! nat (last_delimiter (buffer self @ text) (phrase_delimiters self) (- 1)))
         \<longrightarrow> phrase \<noteq> []
           \<and> last phrase = (buffer self @ text)
              ! nat (last_delimiter (buffer self @ text) (phrase_delimiters self) (- 1)))"
proof -
  define b where "b = buffer self @ text"
  define p where "p = last_delimiter b (phrase_delimiters self) (- 1)"
  from assms(1) have ge: "min_phrase_length self \<le> p"
    by (simp add: add_def Let_def b_def p_def split: if_splits)
  from assms(1) have ph: "phrase = strip (take (nat (p + 1)) b)"
    by (simp add: add_def Let_def b_def p_def split: if_splits)
  from ge assms(2) have p0: "0 \<le> p" by simp
  then have suc: "nat (p + 1) = Suc (nat p)" by simp
  from last_delimiter_found [of b "phrase_delimiters self"] p0
  have lt: "nat p < length b" and mem: "b ! nat p \<in> set (phrase_delimiters self)"
    unfolding p_def by blast+
  have tk: "take (Suc (nat p)) b = take (nat p) b @ [b ! nat p]"
    by (rule take_Suc_conv_app_nth [OF lt])
  have ends: "phrase \<noteq> [] \<and> last phrase = b ! nat p" if "\<not> isspace (b ! nat p)"
  proof -
    from strip_keeps_last [of "b ! nat p" "take (nat p) b", OF that]
    obtain ys where "strip (take (nat p) b @ [b ! nat p]) = ys @ [b ! nat p]" ..
    with ph suc tk show ?thesis by simp
  qed
  from ph suc have ph': "phrase = strip (take (nat p + 1) b)" by simp
  have "min_phrase_length self \<le> p
     \<and> nat p < length b
     \<and> b ! nat p \<in> set (phrase_delimiters self)
     \<and> phrase = strip (take (nat p + 1) b)
     \<and> (\<not> isspace (b ! nat p) \<longrightarrow> phrase \<noteq> [] \<and> last phrase = b ! nat p)"
  proof (intro conjI impI)
    show "min_phrase_length self \<le> p" by (rule ge)
    show "nat p < length b" by (rule lt)
    show "b ! nat p \<in> set (phrase_delimiters self)" by (rule mem)
    show "phrase = strip (take (nat p + 1) b)" by (rule ph')
    show "phrase \<noteq> []" if "\<not> isspace (b ! nat p)" using ends [OF that] by (rule conjunct1)
    show "last phrase = b ! nat p" if "\<not> isspace (b ! nat p)" using ends [OF that] by (rule conjunct2)
  qed
  then show ?thesis
    unfolding p_def b_def .
qed

theorem emitted_phrase_ends_at_delimiter_witness:
  "add (PhraseBuffer 10 default_delimiters) ''Hello world. How are''
     = (Some ''Hello world.'', buffer_after_first)
   \<and> 0 \<le> min_phrase_length (PhraseBuffer 10 default_delimiters)
   \<and> last_delimiter ''Hello world. How are'' default_delimiters (- 1) = 11
   \<and> ''Hello world. How are'' ! 11 = CHR ''.''
   \<and> \<not> isspace (CHR ''.'')
   \<and> ''Hello world.'' = strip (take 12 ''Hello world. How are'')
   \<and> last ''Hello world.'' = CHR ''.''"
proof -
  have h1: "add (PhraseBuffer 10 default_delimiters) ''Hello world. How are''
              = (Some ''Hello world.'', buffer_after_first)"
    by (simp add: add_first buffer_after_first_eq)
  have h2: "0 \<le> min_phrase_length (PhraseBuffer 10 default_delimiters)"
    by (simp add: PhraseBuffer_def)
  have p: "last_delimiter ''Hello world. How are'' default_delimiters (- 1) = 11"
    by (simp add: default_delimiters_def)
  have sp: "\<not> isspace (CHR ''.'')"
    by (simp add: isspace_def)
  from emitted_phrase_ends_at_delimiter [OF h1 h2] h1 h2 p sp show ?thesis
    by (simp add: PhraseBuffer_def)
qed

section \<open>Properties of the metrics collector\<close>

lemma percentile_in_range:
  assumes "vs \<noteq> []" "0 \<le> p"
  shows "percentile vs p = Inr (sort vs ! min (nat \<lfloor>real (length vs) * p\<rfloor>) (length vs - 1))"
proof -
  define n where "n = length vs"
  define i where "i = min \<lfloor>real n * p\<rfloor> (int n - 1)"
  from assms(1) have n: "0 < n" by (simp add: n_def)
  from assms(2) have nonneg: "0 \<le> real n * p" by simp
  then have pi: "py_int (real n * p) = \<lfloor>real n * p\<rfloor>" by (simp add: py_int_def)
  from nonneg have fl: "0 \<le> \<lfloor>real n * p\<rfloor>" by simp
  from fl n have i0: "0 \<le> i" by (simp add: i_def)
  have i1: "i < int n" by (simp add: i_def)
  have nat_i: "nat i = min (nat \<lfloor>real n * p\<rfloor>) (n - 1)"
    using fl n unfolding i_def by linarith
  have len: "length (sort vs) = n" by (simp add: n_def)
  from assms(1) have "percentile vs p = py_index (sort vs) i"
    by (simp add: percentile_def pi [unfolded n_def] Let_def i_def n_def)
  also from i0 i1 have "\<dots> = Inr (sort vs ! nat i)"
    by (simp add: py_index_def Let_def n_def)
  finally show ?thesis by (simp only: nat_i n_def)
qed

lemma deque_append_items:
  "length (items d) \<le> maxlen d \<Longrightarrow>
     items (deque_append d v) = drop (length (items d) + 1 - maxlen d) (items d @ [v])"
  by (cases "items d") (auto simp add: deque_append_def Let_def drop_Cons')

lemma record_value_existing:
  "metrics self name = Some d \<Longrightarrow>
     record_value self name v = Inr (self\<lparr>metrics := (metrics self)(name \<mapsto> deque_append d v)\<rparr>)"
  by (simp add: record_value_def)

lemma record_all_existing:
  "metrics self name = Some d \<Longrightarrow> length (items d) \<le> maxlen d \<Longrightarrow>
     \<exists>c. record_all self name vs = Inr c
        \<and> metrics c name
            = Some \<lparr>maxlen = maxlen d,
                    items = drop (length (items d) + length vs - maxlen d) (items d @ vs)\<rparr>"
proof (induction vs arbitrary: self d)
  case Nil
  then show ?case by simp
next
  case (Cons v vs)
  let ?d1 = "deque_append d v"
  let ?s1 = "self\<lparr>metrics := (metrics self)(name \<mapsto> ?d1)\<rparr>"
  have it: "items ?d1 = drop (length (items d) + 1 - maxlen d) (items d @ [v])"
    using Cons.prems(2) by (rule deque_append_items)
  have ml: "maxlen ?d1 = maxlen d" by (simp add: deque_append_def Let_def)
  have le: "length (items ?d1) \<le> maxlen ?d1" using Cons.prems(2) by (simp add: it ml)
  have m1: "metrics ?s1 name = Some ?d1" by simp
  from Cons.IH [OF m1 le] obtain c where c: "record_all ?s1 name vs = Inr c"
    "metrics c name = Some \<lparr>maxlen = maxlen ?d1,
        items = drop (length (items ?d1) + length vs - maxlen ?d1) (items ?d1 @ vs)\<rparr>"
    by blast
  have step: "record_all self name (v # vs) = record_all ?s1 name vs"
    by (simp add: record_value_existing [OF Cons.prems(1)])
  define k where "k = length (items d) + 1 - maxlen d"
  have it': "items ?d1 = drop k (items d @ [v])" by (simp only: it k_def)
  have k_le: "k \<le> length (items d @ [v])" by (simp add: k_def)
  have "drop k ((items d @ [v]) @ vs) = drop k (items d @ [v]) @ vs"
    using k_le by (simp only: drop_append) simp
  then have app: "items ?d1 @ vs = drop k (items d @ v # vs)"
    by (simp add: it')
  have len1: "length (items ?d1) = length (items d) + 1 - k"
    by (simp add: it')
  have arith: "length (items ?d1) + length vs - maxlen ?d1 + k
                 = length (items d) + length (v # vs) - maxlen d"
    using Cons.prems(2) by (simp add: len1 ml k_def)
  have eq: "drop (length (items ?d1) + length vs - maxlen ?d1) (items ?d1 @ vs)
            = drop (length (items d) + length (v # vs) - maxlen d) (items d @ v # vs)"
    by (simp only: app drop_drop arith)
  from c step eq ml show ?case by simp
qed


lemma record_all_fresh:
  assumes "metrics self name = None" and "0 \<le> window_size self" and "vs \<noteq> []"
  shows "\<exists>c. record_all self name vs = Inr c
           \<and> metrics c name
               = Some \<lparr>maxlen = nat (window_size self),
                       items = drop (length vs - nat (window_size self)) vs\<rparr>"
proof -
  from assms(3) obtain v ws where vs: "vs = v # ws" by (cases vs) auto
  let ?d0 = "\<lparr>maxlen = nat (window_size self), items = []\<rparr>"
  let ?d1 = "deque_append ?d0 v"
  let ?s1 = "self\<lparr>metrics := (metrics self)(name \<mapsto> ?d1)\<rparr>"
  have rv: "record_value self name v = Inr ?s1"
    using assms(1,2) by (simp add: record_value_def deque_new_def)
  have it: "items ?d1 = drop (1 - nat (window_size self)) [v]"
    using deque_append_items [of ?d0 v] by simp
  have ml: "maxlen ?d1 = nat (window_size self)" by (simp add: deque_append_def Let_def)
  have le: "length (items ?d1) \<le> maxlen ?d1" by (simp add: it ml)
  have m1: "metrics ?s1 name = Some ?d1" by simp
  from record_all_existing [OF m1 le, of ws] obtain c where c: "record_all ?s1 name ws = Inr c"
    "metrics c name = Some \<lparr>maxlen = maxlen ?d1,
        items = drop (length (items ?d1) + length ws - maxlen ?d1) (items ?d1 @ ws)\<rparr>"
    by blast
  define k where "k = 1 - nat (window_size self)"
  have it': "items ?d1 = drop k [v]" by (simp only: it k_def)
  have k_le: "k \<le> length [v]" by (simp add: k_def)
  have "drop k ([v] @ ws) = drop k [v] @ ws"
    using k_le by (simp only: drop_append) simp
  then have app: "items ?d1 @ ws = drop k (v # ws)" by (simp add: it')
  have len1: "length (items ?d1) = 1 - k" by (simp add: it')
  have arith: "length (items ?d1) + length ws - maxlen ?d1 + k
                 = length (v # ws) - nat (window_size self)"
    by (simp add: len1 ml k_def)
  have eq: "drop (length (items ?d1) + length ws - maxlen ?d1) (items ?d1 @ ws)
              = drop (length (v # ws) - nat (window_size self)) (v # ws)"
    by (simp only: app drop_drop arith)
  have step: "record_all self name (v # ws) = record_all ?s1 name ws"
    by (simp add: rv)
  from c step eq ml vs show ?thesis by simp
qed

lemma get_stats_nonempty:
  assumes "metrics self name = Some d" and "items d \<noteq> []"
  shows "get_stats self name =
     Inr (Some \<lparr>mean = statistics_mean (items d),
                median = statistics_median (items d),
                min_value = Min (set (items d)),
                max_value = Max (set (items d)),
                stdev = (if length (items d) > 1 then statistics_stdev (items d) else 0),
                count = length (items d),
                p95 = sort (items d) ! min (nat \<lfloor>real (length (items d)) * 0.95\<rfloor>)
                                          (length (items d) - 1),
                p99 = sort (items d) ! min (nat \<lfloor>real (length (items d)) * 0.99\<rfloor>)
                                          (length (items d) - 1)\<rparr>)"
proof -
  have q95: "percentile (items d) 0.95
      = Inr (sort (items d) ! min (nat \<lfloor>real (length (items d)) * 0.95\<rfloor>) (length (items d) - 1))"
    using assms(2) by (intro percentile_in_range) simp_all
  have q99: "percentile (items d) 0.99
      = Inr (sort (items d) ! min (nat \<lfloor>real (length (items d)) * 0.99\<rfloor>) (length (items d) - 1))"
    using assms(2) by (intro percentile_in_range) simp_all
  have "get_stats self name =
      (if length (items d) = 0 then Inr None
       else Inr (Some \<lparr>mean = statistics_mean (items d),
                median = statistics_median (items d),
                min_value = Min (set (items d)),
                max_value = Max (set (items d)),
                stdev = (if length (items d) > 1 then statistics_stdev (items d) else 0),
                count = length (items d),
                p95 = sort (items d) ! min (nat \<lfloor>real (length (items d)) * 0.95\<rfloor>)
                                          (length (items d) - 1),
                p99 = sort (items d) ! min (nat \<lfloor>real (length (items d)) * 0.99\<rfloor>)
                                          (length (items d) - 1)\<rparr>))"
    by (simp only: get_stats_def Let_def assms(1) option.case q95 q99 sum.case)
  with assms(2) show ?thesis by simp
qed

text \<open>
  C7, amended: for every metric whose window holds at least one sample, \<open>get_stats\<close>
  returns in \<open>stdev\<close> the sample standard deviation of the window's values (the square
  root of the sum of squared deviations from the mean divided by \<open>n - 1\<close>), and 0 when
  the window holds fewer than 2 samples; \<open>p95\<close> and \<open>p99\<close> are the elements of the
  sorted window at index \<open>floor (p * n)\<close>, clamped to the last index.
\<close>

theorem get_stats_stdev_and_percentiles:
  assumes "metrics self name = Some d" and "items d \<noteq> []"
  shows "\<exists>st. get_stats self name = Inr (Some st)
     \<and> stdev st =
         (if length (items d) < 2 then 0
          else sqrt ((\<Sum>x\<leftarrow>items d. (x - sum_list (items d) / real (length (items d)))\<^sup>2)
                     / real (length (items d) - 1)))
     \<and> p95 st = sort (items d) ! min (nat \<lfloor>real (length (items d)) * 0.95\<rfloor>)
                                    (length (items d) - 1)
     \<and> p99 st = sort (items d) ! min (nat \<lfloor>real (length (items d)) * 0.99\<rfloor>)
                                    (length (items d) - 1)"
proof -
  have "(if length (items d) > 1 then statistics_stdev (items d) else 0)
      = (if length (items d) < 2 then 0
          else sqrt ((\<Sum>x\<leftarrow>items d. (x - sum_list (items d) / real (length (items d)))\<^sup>2)
                     / real (length (items d) - 1)))"
    by (auto simp add: statistics_stdev_def statistics_mean_def)
  with get_stats_nonempty [OF assms] show ?thesis by simp
qed

lemma collector_eight_metrics:
  "metrics collector_eight ''latency'' = Some \<lparr>maxlen = 100, items = eight_samples\<rparr>"
proof -
  have "\<exists>c. record_all (MetricsCollector 100 0) ''latency'' eight_samples = Inr c
           \<and> metrics c ''latency''
               = Some \<lparr>maxlen = nat (window_size (MetricsCollector 100 0)),
                       items = drop (length eight_samples - nat (window_size (MetricsCollector 100 0)))
                                 eight_samples\<rparr>"
    by (rule record_all_fresh) (simp_all add: MetricsCollector_def eight_samples_def)
  then obtain c where c: "record_all (MetricsCollector 100 0) ''latency'' eight_samples = Inr c"
    "metrics c ''latency'' = Some \<lparr>maxlen = 100, items = eight_samples\<rparr>"
    by (auto simp add: MetricsCollector_def eight_samples_def)
  then show ?thesis by (simp add: collector_eight_def collector_of_def)
qed

lemma stdev_eight: "statistics_stdev eight_samples = sqrt (32 / 7)"
  by (simp add: statistics_stdev_def statistics_mean_def eight_samples_def power2_eq_square)

lemma population_stdev_eight: "population_stdev eight_samples = 2"
proof -
  have "population_stdev eight_samples = sqrt 4"
    by (simp add: population_stdev_def statistics_mean_def eight_samples_def power2_eq_square)
  then show ?thesis by simp
qed

text \<open>
  C7, as stated, fails: \<open>get_stats\<close> returns the sample standard deviation. For the
  window 2, 4, 4, 4, 5, 5, 7, 9 (mean 5, sum of squared deviations 32) the \<open>stdev\<close> field
  is the square root of 32/7, while the population standard deviation is 2.
\<close>

theorem sample_stdev_counterexample:
  "map_sum id (map_option stdev) (get_stats collector_eight ''latency'') = Inr (Some (sqrt (32 / 7)))
   \<and> map_option items (metrics collector_eight ''latency'') = Some eight_samples
   \<and> population_stdev eight_samples = 2
   \<and> map_sum id (map_option stdev) (get_stats collector_eight ''latency'')
       \<noteq> Inr (Some (population_stdev eight_samples))"
proof -
  have ne: "items \<lparr>maxlen = 100, items = eight_samples\<rparr> \<noteq> []"
    by (simp add: eight_samples_def)
  have len: "length eight_samples = 8" by (simp add: eight_samples_def)
  have a: "map_sum id (map_option stdev) (get_stats collector_eight ''latency'')
            = Inr (Some (sqrt (32 / 7)))"
    by (simp add: get_stats_nonempty [OF collector_eight_metrics ne] len stdev_eight)
  have b: "map_option items (metrics collector_eight ''latency'') = Some eight_samples"
    by (simp add: collector_eight_metrics)
  have c: "sqrt (32 / 7) \<noteq> (2::real)"
  proof
    assume "sqrt (32 / 7) = (2::real)"
    then have "(sqrt (32 / 7))\<^sup>2 = (2::real)\<^sup>2" by (simp only:)
    moreover have "(sqrt (32 / 7))\<^sup>2 = (32 / 7 :: real)" by (rule real_sqrt_pow2) simp
    ultimately have "(32 / 7 :: real) = 2\<^sup>2" by (simp only:)
    then show False by simp
  qed
  from a b c show ?thesis by (simp add: population_stdev_eight)
qed

theorem get_stats_stdev_and_percentiles_witness:
  "metrics collector_eight ''latency'' = Some \<lparr>maxlen = 100, items = eight_samples\<rparr>
   \<and> eight_samples \<noteq> []
   \<and> (\<exists>st. get_stats collector_eight ''latency'' = Inr (Some st)
         \<and> stdev st = sqrt (32 / 7) \<and> p95 st = 9 \<and> p99 st = 9)"
proof -
  have ne: "items \<lparr>maxlen = 100, items = eight_samples\<rparr> \<noteq> []"
    by (simp add: eight_samples_def)
  from get_stats_stdev_and_percentiles [OF collector_eight_metrics ne] collector_eight_metrics
  show ?thesis
    by (simp add: eight_samples_def power2_eq_square)
qed


lemma length_1_to_100: "length values_1_to_100 = 100"
  by (simp add: values_1_to_100_def)

lemma nth_1_to_100: "i < 100 \<Longrightarrow> values_1_to_100 ! i = real (i + 1)"
  by (simp add: values_1_to_100_def)

lemma sort_1_to_100: "sort values_1_to_100 = values_1_to_100"
  unfolding values_1_to_100_def
  by (rule sorted_sort_id) (simp add: sorted_map sorted_wrt_iff_nth_less)

lemma collector_1_to_100_metrics:
  "metrics collector_1_to_100 ''latency'' = Some \<lparr>maxlen = 100, items = values_1_to_100\<rparr>"
proof -
  have "\<exists>c. record_all (MetricsCollector 100 0) ''latency'' values_1_to_100 = Inr c
           \<and> metrics c ''latency''
               = Some \<lparr>maxlen = nat (window_size (MetricsCollector 100 0)),
                       items = drop (length values_1_to_100
                                      - nat (window_size (MetricsCollector 100 0)))
                                 values_1_to_100\<rparr>"
    by (rule record_all_fresh) (simp_all add: MetricsCollector_def values_1_to_100_def)
  then obtain c where "record_all (MetricsCollector 100 0) ''latency'' values_1_to_100 = Inr c"
    "metrics c ''latency'' = Some \<lparr>maxlen = 100, items = values_1_to_100\<rparr>"
    by (auto simp add: MetricsCollector_def length_1_to_100)
  then show ?thesis by (simp add: collector_1_to_100_def collector_of_def)
qed

lemma p95_1_to_100:
  "map_sum id (map_option p95) (get_stats collector_1_to_100 ''latency'') = Inr (Some 96)"
proof -
  have ne: "items \<lparr>maxlen = 100, items = values_1_to_100\<rparr> \<noteq> []"
    by (simp add: values_1_to_100_def)
  show ?thesis
    by (simp add: get_stats_nonempty [OF collector_1_to_100_metrics ne] sort_1_to_100
          length_1_to_100 nth_1_to_100)
qed

text \<open>
  C8, as stated, fails in its second half: for the window 1..100 the index is
  \<open>floor (0.95 * 100) = 95\<close>, counted from 0, so \<open>p95\<close> is 96, the 96th element of the
  sorted window; the 95th element is 95.
\<close>

theorem p95_is_96th_counterexample:
  "map_sum id (map_option p95) (get_stats collector_1_to_100 ''latency'') = Inr (Some 96)
   \<and> map_option items (metrics collector_1_to_100 ''latency'') = Some values_1_to_100
   \<and> sort values_1_to_100 ! 94 = 95
   \<and> map_sum id (map_option p95) (get_stats collector_1_to_100 ''latency'')
       \<noteq> Inr (Some (sort values_1_to_100 ! 94))"
  by (simp add: p95_1_to_100 collector_1_to_100_metrics sort_1_to_100 nth_1_to_100)

text \<open>
  C8, amended: recording 150 values into a metric of a collector with window capacity 100
  leaves the window holding exactly the last 100 recorded values in order; and when the
  window holds the values 1..100, the \<open>p95\<close> returned by \<open>get_stats\<close> is the element at
  index 95 (counted from 0) of the sorted window, that is its 96th element, 96.
\<close>

theorem window_keeps_last_100_and_p95:
  "(length vs = 150 \<longrightarrow>
      (\<exists>c. record_all (MetricsCollector 100 now) name vs = Inr c
          \<and> map_option items (metrics c name) = Some (drop 50 vs)))
   \<and> (\<exists>c st. record_all (MetricsCollector 100 now) name values_1_to_100 = Inr c
          \<and> map_option items (metrics c name) = Some values_1_to_100
          \<and> get_stats c name = Inr (Some st)
          \<and> p95 st = sort values_1_to_100 ! 95
          \<and> p95 st = 96)"
proof (intro conjI impI)
  assume len: "length vs = 150"
  then have ne: "vs \<noteq> []" by auto
  have "\<exists>c. record_all (MetricsCollector 100 now) name vs = Inr c
           \<and> metrics c name
               = Some \<lparr>maxlen = nat (window_size (MetricsCollector 100 now)),
                       items = drop (length vs - nat (window_size (MetricsCollector 100 now))) vs\<rparr>"
    using ne by (intro record_all_fresh) (simp_all add: MetricsCollector_def)
  then show "\<exists>c. record_all (MetricsCollector 100 now) name vs = Inr c
          \<and> map_option items (metrics c name) = Some (drop 50 vs)"
    using len by (auto simp add: MetricsCollector_def)
next
  have "\<exists>c. record_all (MetricsCollector 100 now) name values_1_to_100 = Inr c
           \<and> metrics c name
               = Some \<lparr>maxlen = nat (window_size (MetricsCollector 100 now)),
                       items = drop (length values_1_to_100
                                      - nat (window_size (MetricsCollector 100 now)))
                                 values_1_to_100\<rparr>"
    by (rule record_all_fresh) (simp_all add: MetricsCollector_def values_1_to_100_def)
  then obtain c where c: "record_all (MetricsCollector 100 now) name values_1_to_100 = Inr c"
    "metrics c name = Some \<lparr>maxlen = 100, items = values_1_to_100\<rparr>"
    by (auto simp add: MetricsCollector_def length_1_to_100)
  have ne: "items \<lparr>maxlen = 100, items = values_1_to_100\<rparr> \<noteq> []"
    by (simp add: values_1_to_100_def)
  from get_stats_nonempty [OF c(2) ne] obtain st where st: "get_stats c name = Inr (Some st)"
    "p95 st = sort values_1_to_100 ! min (nat \<lfloor>real (length values_1_to_100) * 0.95\<rfloor>)
                 (length values_1_to_100 - 1)"
    by simp
  have idx: "min (nat \<lfloor>real (length values_1_to_100) * 0.95\<rfloor>)
                 (length values_1_to_100 - 1) = 95"
    by (simp add: length_1_to_100)
  from st(2) have p: "p95 st = sort values_1_to_100 ! 95" by (simp only: idx)
  then have "p95 st = 96" by (simp add: sort_1_to_100 nth_1_to_100)
  with c st(1) p show "\<exists>c st. record_all (MetricsCollector 100 now) name values_1_to_100 = Inr c
          \<and> map_option items (metrics c name) = Some values_1_to_100
          \<and> get_stats c name = Inr (Some st)
          \<and> p95 st = sort values_1_to_100 ! 95
          \<and> p95 st = 96"
    by auto
qed

theorem window_keeps_last_100_and_p95_witness:
  "length (map real [0..<150]) = 150
   \<and> (\<exists>c. record_all (MetricsCollector 100 0) ''latency'' (map real [0..<150]) = Inr c
          \<and> map_option items (metrics c ''latency'') = Some (map real [50..<150]))"
proof -
  have len: "length (map real [0..<150]) = 150" by simp
  have dr: "drop 50 (map real [0..<150]) = map real [50..<150]"
    by (simp add: drop_map)
  from window_keeps_last_100_and_p95 [of "map real [0..<150]" 0 "''latency''"] len
  have "\<exists>c. record_all (MetricsCollector 100 0) ''latency'' (map real [0..<150]) = Inr c
          \<and> map_option items (metrics c ''latency'') = Some (drop 50 (map real [0..<150]))"
    by blast
  with len dr show ?thesis by (simp only:) 
qed

section \<open>Properties of the voice activity detector\<close>

lemma energy_replicate:
  "0 < n \<Longrightarrow> energy_based_detection (replicate n x) = (\<bar>x\<bar> > 0.01)"
proof -
  assume n: "0 < n"
  have "sum_list (map (\<lambda>x. x\<^sup>2) (replicate n x)) = real n * x\<^sup>2"
    by (induction n) (simp_all add: algebra_simps)
  with n have "sum_list (map (\<lambda>x. x\<^sup>2) (replicate n x)) / real (length (replicate n x)) = x\<^sup>2"
    by simp
  then show ?thesis
    by (simp add: energy_based_detection_def del: map_replicate)
qed

lemma is_speech_detected_replicate:
  assumes "model self = None" and "sample_rate self = 16000"
  shows "is_speech_detected self (replicate 512 x) = (\<bar>x\<bar> > 0.01)"
proof -
  have idx: "[0..<(length (replicate 512 x) + 512 - 1) div 512] = [0]"
    by (simp add: upt_rec)
  have "detect_speech self (replicate 512 x) = (\<bar>x\<bar> > 0.01)"
    using assms(1) by (simp add: detect_speech_def energy_replicate)
  then show ?thesis
    using assms(2) by (simp add: is_speech_detected_def idx)
qed

text \<open>
  C10. Whenever \<open>process\<close> returns a completed speech segment (the second component is
  not \<open>None\<close>), the first component is \<open>True\<close>, although the chunk of that call was
  classified as silence; the call found the detector speaking and leaves it in silence.
\<close>

theorem completed_segment_reports_speech:
  "snd (fst (vad_process self chunk)) \<noteq> None \<Longrightarrow>
     fst (fst (vad_process self chunk)) = True
     \<and> \<not> is_speech_detected self (to_float32 chunk)
     \<and> is_speaking self
     \<and> \<not> is_speaking (snd (vad_process self chunk))"
  by (auto simp add: vad_process_def Let_def split: if_splits)


lemma short_onset_detector_eq:
  "short_onset_detector =
     \<lparr>sample_rate = 16000, threshold = 1 / 2,
      min_speech_duration_ms = 60, min_silence_duration_ms = 60,
      speech_pad_ms = 100, model = None, speech_buffer = [], is_speaking = False,
      speech_frames = 0, silence_frames = 0, frame_buffer = [],
      vad_frame_size = 512, frame_duration_ms = 30,
      min_speech_frames = 2, min_silence_frames = 2\<rparr>"
  by (simp add: short_onset_detector_def vad_reset_def VoiceActivityDetector_def)

lemma loud_detected:
  "model self = None \<Longrightarrow> sample_rate self = 16000 \<Longrightarrow>
     is_speech_detected self (to_float32 loud)"
  by (simp add: loud_def to_float32_def is_speech_detected_replicate)

lemma quiet_not_detected:
  "model self = None \<Longrightarrow> sample_rate self = 16000 \<Longrightarrow>
     \<not> is_speech_detected self (to_float32 quiet)"
  by (simp add: quiet_def to_float32_def is_speech_detected_replicate)

lemma process_loud:
  assumes "model self = None" and "sample_rate self = 16000"
  shows "vad_process self loud =
     ((True, None),
      self\<lparr>speech_frames := speech_frames self + 1, silence_frames := 0,
            speech_buffer := speech_buffer self @ [to_float32 loud],
            is_speaking := (is_speaking self \<or> int (speech_frames self + 1) \<ge> min_speech_frames self)\<rparr>)"
  using loud_detected [OF assms]
  by (auto simp add: vad_process_def Let_def)

lemma process_quiet_not_speaking:
  assumes "model self = None" and "sample_rate self = 16000" and "\<not> is_speaking self"
  shows "vad_process self quiet = ((False, None), self\<lparr>silence_frames := silence_frames self + 1\<rparr>)"
  using quiet_not_detected [OF assms(1,2)] assms(3)
  by (simp add: vad_process_def Let_def)

lemma after_loud:
  "feed short_onset_detector [loud] =
     short_onset_detector\<lparr>speech_frames := 1, speech_buffer := [to_float32 loud]\<rparr>"
  by (simp add: process_loud short_onset_detector_eq)

lemma after_loud_quiet:
  "feed short_onset_detector [loud, quiet] =
     short_onset_detector\<lparr>speech_frames := 1, silence_frames := 1,
                           speech_buffer := [to_float32 loud]\<rparr>"
  by (simp add: process_loud process_quiet_not_speaking short_onset_detector_eq)

lemma after_loud_quiet_loud:
  "feed short_onset_detector [loud, quiet, loud] =
     short_onset_detector\<lparr>speech_frames := 2, is_speaking := True,
                           speech_buffer := [to_float32 loud, to_float32 loud]\<rparr>"
  by (simp add: process_loud process_quiet_not_speaking short_onset_detector_eq)

text \<open>
  C1, the code at a failing input. With \<open>min_speech_frames = 2\<close>, the chunks loud, quiet,
  loud from the reset state switch the detector to speech on the third chunk, although
  no two consecutive speech-positive chunks have been seen: a silence chunk seen while in
  silence increments \<open>silence_frames\<close> and leaves \<open>speech_frames\<close> as it is, so
  \<open>speech_frames\<close> counts the speech-positive chunks since the last closure or reset, not
  the consecutive ones.
\<close>

theorem onset_after_interrupted_speech:
  "min_speech_frames short_onset_detector = 2
   \<and> is_speech_detected short_onset_detector (to_float32 loud)
   \<and> \<not> is_speech_detected short_onset_detector (to_float32 quiet)
   \<and> \<not> is_speaking (feed short_onset_detector [loud])
   \<and> \<not> is_speaking (feed short_onset_detector [loud, quiet])
   \<and> is_speaking (feed short_onset_detector [loud, quiet, loud])"
proof -
  have m: "model short_onset_detector = None" "sample_rate short_onset_detector = 16000"
    by (simp_all add: short_onset_detector_eq)
  show ?thesis
    unfolding after_loud after_loud_quiet after_loud_quiet_loud
    using loud_detected [OF m] quiet_not_detected [OF m]
    by (simp add: short_onset_detector_eq)
qed


lemma process_quiet_speaking:
  assumes "model self = None" and "sample_rate self = 16000" and "is_speaking self"
  shows "vad_process self quiet =
     (if int (silence_frames self + 1) \<ge> min_silence_frames self
      then ((True, Some (concat (speech_buffer self @ [to_float32 quiet]))),
            self\<lparr>silence_frames := 0, speech_buffer := [], is_speaking := False,
                  speech_frames := 0\<rparr>)
      else ((False, None),
            self\<lparr>silence_frames := silence_frames self + 1,
                  speech_buffer := speech_buffer self @ [to_float32 quiet]\<rparr>))"
  using quiet_not_detected [OF assms(1,2)] assms(3)
  by (simp add: vad_process_def Let_def)

lemma after_loud_loud_quiet:
  "feed short_onset_detector [loud, loud, quiet] =
     short_onset_detector\<lparr>speech_frames := 2, silence_frames := 1, is_speaking := True,
        speech_buffer := [to_float32 loud, to_float32 loud, to_float32 quiet]\<rparr>"
  by (simp add: process_loud process_quiet_speaking short_onset_detector_eq)

theorem completed_segment_reports_speech_witness:
  "snd (fst (vad_process (feed short_onset_detector [loud, loud, quiet]) quiet)) \<noteq> None
   \<and> fst (fst (vad_process (feed short_onset_detector [loud, loud, quiet]) quiet)) = True
   \<and> \<not> is_speech_detected (feed short_onset_detector [loud, loud, quiet]) (to_float32 quiet)
   \<and> is_speaking (feed short_onset_detector [loud, loud, quiet])
   \<and> \<not> is_speaking (snd (vad_process (feed short_onset_detector [loud, loud, quiet]) quiet))"
proof -
  have h: "snd (fst (vad_process (feed short_onset_detector [loud, loud, quiet]) quiet)) \<noteq> None"
    unfolding after_loud_loud_quiet
    by (simp add: process_quiet_speaking short_onset_detector_eq)
  from completed_segment_reports_speech [OF h] h show ?thesis by simp
qed

subsection \<open>Closure after consecutive silence\<close>

lemma feed_snoc: "feed self (chunks @ [c]) = snd (vad_process (feed self chunks) c)"
  by (induction chunks arbitrary: self) simp_all

lemma vad_process_min_silence:
  "min_silence_frames (snd (vad_process self c)) = min_silence_frames self"
  by (simp add: vad_process_def Let_def)

lemma feed_min_silence: "min_silence_frames (feed self chunks) = min_silence_frames self"
  by (induction chunks arbitrary: self) (simp_all add: vad_process_min_silence)

lemma step_detected:
  "is_speech_detected self (to_float32 c) \<Longrightarrow> silence_frames (snd (vad_process self c)) = 0"
  by (simp add: vad_process_def Let_def)

lemma step_silence_idle:
  "\<not> is_speech_detected self (to_float32 c) \<Longrightarrow> \<not> is_speaking self \<Longrightarrow>
     \<not> is_speaking (snd (vad_process self c))"
  by (simp add: vad_process_def Let_def)

lemma step_silence_speaking:
  "\<not> is_speech_detected self (to_float32 c) \<Longrightarrow> is_speaking self \<Longrightarrow>
     is_speaking (snd (vad_process self c)) \<Longrightarrow>
     silence_frames (snd (vad_process self c)) = silence_frames self + 1"
  by (simp add: vad_process_def Let_def split: if_splits)

lemma closure_step:
  "snd (fst (vad_process self c)) \<noteq> None \<Longrightarrow>
     is_speaking self \<and> \<not> is_speech_detected self (to_float32 c)
     \<and> min_silence_frames self \<le> int (silence_frames self + 1)"
  by (simp add: vad_process_def Let_def split: if_splits)

lemma hangover_invariant:
  assumes "\<not> is_speaking self0"
  shows "is_speaking (feed self0 pre) \<longrightarrow>
     silence_frames (feed self0 pre) \<le> length pre
     \<and> (\<forall>i. length pre - silence_frames (feed self0 pre) \<le> i \<and> i < length pre \<longrightarrow>
            is_speaking (feed self0 (take i pre))
            \<and> \<not> is_speech_detected (feed self0 (take i pre)) (to_float32 (pre ! i)))"
proof (induction pre rule: rev_induct)
  case Nil
  from assms show ?case by simp
next
  case (snoc c pre)
  let ?s = "feed self0 pre"
  let ?s' = "feed self0 (pre @ [c])"
  have s': "?s' = snd (vad_process ?s c)" by (rule feed_snoc)
  show ?case
  proof (intro impI)
    assume sp': "is_speaking ?s'"
    show "silence_frames ?s' \<le> length (pre @ [c])
      \<and> (\<forall>i. length (pre @ [c]) - silence_frames ?s' \<le> i \<and> i < length (pre @ [c]) \<longrightarrow>
            is_speaking (feed self0 (take i (pre @ [c])))
            \<and> \<not> is_speech_detected (feed self0 (take i (pre @ [c])))
                  (to_float32 ((pre @ [c]) ! i)))"
    proof (cases "is_speech_detected ?s (to_float32 c)")
      case True
      then have "silence_frames ?s' = 0" unfolding s' by (rule step_detected)
      then show ?thesis by auto
    next
      case False
      have sp: "is_speaking ?s"
      proof (rule ccontr)
        assume "\<not> is_speaking ?s"
        with False have "\<not> is_speaking ?s'" unfolding s' by (rule step_silence_idle)
        with sp' show False by simp
      qed
      from False sp sp' have sf: "silence_frames ?s' = silence_frames ?s + 1"
        unfolding s' by (rule step_silence_speaking)
      from snoc.IH sp have le: "silence_frames ?s \<le> length pre"
        and old: "\<forall>i. length pre - silence_frames ?s \<le> i \<and> i < length pre \<longrightarrow>
            is_speaking (feed self0 (take i pre))
            \<and> \<not> is_speech_detected (feed self0 (take i pre)) (to_float32 (pre ! i))"
        by blast+
      have all: "is_speaking (feed self0 (take i (pre @ [c])))
            \<and> \<not> is_speech_detected (feed self0 (take i (pre @ [c])))
                  (to_float32 ((pre @ [c]) ! i))"
        if i: "length (pre @ [c]) - silence_frames ?s' \<le> i \<and> i < length (pre @ [c])" for i
      proof (cases "i < length pre")
        case True
        with i sf have "length pre - silence_frames ?s \<le> i \<and> i < length pre" by simp
        with old have "is_speaking (feed self0 (take i pre))
            \<and> \<not> is_speech_detected (feed self0 (take i pre)) (to_float32 (pre ! i))"
          by blast
        with True show ?thesis by (simp add: nth_append)
      next
        case False
        with i have "i = length pre" by simp
        with sp \<open>\<not> is_speech_detected ?s (to_float32 c)\<close> show ?thesis by simp
      qed
      from le sf all show ?thesis by simp
    qed
  qed
qed

text \<open>
  The closure half of the hysteresis rule holds. From any state that is not speaking
  (the reset state in particular), whenever a call emits a segment, the chunks of the
  last \<open>k\<close> calls, the emitting call included, were all classified as silence and were
  all received while speaking, for some \<open>k\<close> that is positive and not below
  \<open>min_silence_frames\<close>: the speech branch resets \<open>silence_frames\<close> on every
  speech-positive chunk.
\<close>

theorem closure_needs_consecutive_silence:
  assumes "\<not> is_speaking self0"
    and "snd (fst (vad_process (feed self0 pre) c)) \<noteq> None"
  shows "\<exists>k. min_silence_frames self0 \<le> int k \<and> 0 < k \<and> k \<le> length (pre @ [c])
     \<and> (\<forall>i. length (pre @ [c]) - k \<le> i \<and> i < length (pre @ [c]) \<longrightarrow>
            is_speaking (feed self0 (take i (pre @ [c])))
            \<and> \<not> is_speech_detected (feed self0 (take i (pre @ [c])))
                  (to_float32 ((pre @ [c]) ! i)))"
proof -
  let ?s = "feed self0 pre"
  from closure_step [OF assms(2)] have sp: "is_speaking ?s"
    and nd: "\<not> is_speech_detected ?s (to_float32 c)"
    and ms: "min_silence_frames ?s \<le> int (silence_frames ?s + 1)"
    by blast+
  from hangover_invariant [OF assms(1), of pre] sp
  have le: "silence_frames ?s \<le> length pre"
    and old: "\<forall>i. length pre - silence_frames ?s \<le> i \<and> i < length pre \<longrightarrow>
            is_speaking (feed self0 (take i pre))
            \<and> \<not> is_speech_detected (feed self0 (take i pre)) (to_float32 (pre ! i))"
    by blast+
  define k where "k = silence_frames ?s + 1"
  from ms have a: "min_silence_frames self0 \<le> int k"
    by (simp add: k_def feed_min_silence)
  have b: "0 < k" by (simp add: k_def)
  from le have c: "k \<le> length (pre @ [c])" by (simp add: k_def)
  have d: "is_speaking (feed self0 (take i (pre @ [c])))
            \<and> \<not> is_speech_detected (feed self0 (take i (pre @ [c])))
                  (to_float32 ((pre @ [c]) ! i))"
    if i: "length (pre @ [c]) - k \<le> i \<and> i < length (pre @ [c])" for i
  proof (cases "i < length pre")
    case True
    with i have "length pre - silence_frames ?s \<le> i \<and> i < length pre" by (simp add: k_def)
    with old have "is_speaking (feed self0 (take i pre))
            \<and> \<not> is_speech_detected (feed self0 (take i pre)) (to_float32 (pre ! i))"
      by blast
    with True show ?thesis by (simp add: nth_append)
  next
    case False
    with i have "i = length pre" by simp
    with sp nd show ?thesis by simp
  qed
  from a b c d show ?thesis by blast
qed

theorem closure_needs_consecutive_silence_witness:
  "\<not> is_speaking short_onset_detector
   \<and> snd (fst (vad_process (feed short_onset_detector [loud, loud, quiet]) quiet)) \<noteq> None
   \<and> (\<exists>k. min_silence_frames short_onset_detector \<le> int k \<and> 0 < k
          \<and> k \<le> length ([loud, loud, quiet] @ [quiet])
          \<and> (\<forall>i. length ([loud, loud, quiet] @ [quiet]) - k \<le> i
                  \<and> i < length ([loud, loud, quiet] @ [quiet]) \<longrightarrow>
                is_speaking (feed short_onset_detector (take i ([loud, loud, quiet] @ [quiet])))
                \<and> \<not> is_speech_detected
                      (feed short_onset_detector (take i ([loud, loud, quiet] @ [quiet])))
                      (to_float32 (([loud, loud, quiet] @ [quiet]) ! i))))"
proof -
  have h1: "\<not> is_speaking short_onset_detector"
    by (simp add: short_onset_detector_eq)
  have h2: "snd (fst (vad_process (feed short_onset_detector [loud, loud, quiet]) quiet)) \<noteq> None"
    unfolding after_loud_loud_quiet
    by (simp add: process_quiet_speaking short_onset_detector_eq)
  from closure_needs_consecutive_silence [OF h1 h2] h1 h2 show ?thesis by blast
qed

section \<open>Properties of the pipeline orchestrator\<close>

lemma record_value_ok:
  assumes "0 \<le> window_size m"
  shows "\<exists>m1. record_value m metric_name v = Inr m1 \<and> window_size m1 = window_size m"
proof (cases "metrics m metric_name")
  case None
  with assms show ?thesis by (simp add: record_value_def deque_new_def)
next
  case (Some d)
  then show ?thesis by (simp add: record_value_def)
qed

lemma record_latencies_ok:
  assumes "0 \<le> window_size m"
  shows "\<exists>m4. record_latencies m lat = Inr m4"
proof -
  from record_value_ok [OF assms] obtain m1
    where m1: "record_value m ''pipeline_latency'' (total_latency_ms lat) = Inr m1"
      "window_size m1 = window_size m" by blast
  with assms have w1: "0 \<le> window_size m1" by simp
  from record_value_ok [OF w1] obtain m2
    where m2: "record_value m1 ''asr_latency'' (asr_latency_ms lat) = Inr m2"
      "window_size m2 = window_size m1" by blast
  with w1 have w2: "0 \<le> window_size m2" by simp
  from record_value_ok [OF w2] obtain m3
    where m3: "record_value m2 ''translation_latency'' (translation_latency_ms lat) = Inr m3"
      "window_size m3 = window_size m2" by blast
  with w2 have w3: "0 \<le> window_size m3" by simp
  from record_value_ok [OF w3] obtain m4
    where m4: "record_value m3 ''tts_latency'' (tts_latency_ms lat) = Inr m4" by blast
  from m1(1) m2(1) m3(1) m4 have "record_latencies m lat = Inr m4"
    by (simp add: record_latencies_def)
  then show ?thesis by blast
qed

lemma process_audio_mock_asr:
  assumes ready: "is_ready self"
    and stub: "asr self = Some MockASR"
    and engines: "translator self = Some tr" "tts self = Some ts"
    and v: "vad self = Some v"
    and decoded: "bytes_to_array bs = Some arr" "arr \<noteq> []"
    and seg: "component_process v arr = ((sp, Some segment), v1)"
    and rate: "SAMPLE_RATE (config self) \<noteq> 0"
    and win: "0 \<le> window_size (orchestrator_metrics self)"
  shows "\<exists>b self'. process_audio env lat self bs = (ResultBundle b, self')
           \<and> transcription b = ''[Mock transcription]''
           \<and> translation b = translate env tr ''[Mock transcription]''
           \<and> audio_bytes b = synthesize env ts (translate env tr ''[Mock transcription]'')
           \<and> is_final b"
proof -
  from record_latencies_ok [OF win] obtain m4
    where m4: "record_latencies (orchestrator_metrics self) lat = Inr m4" by blast
  have tr: "transcribe env MockASR segment (SOURCE_LANGUAGE (config self))
      = Inr \<lparr>tr_text = ''[Mock transcription]'',
             tr_language = (if SOURCE_LANGUAGE (config self) \<noteq> []
                            then SOURCE_LANGUAGE (config self) else ''en''),
             tr_confidence = 1\<rparr>"
    by (simp add: transcribe_def)
  have st: "res_stable_text (fst (process (difflib env) (stabilizer self)
              ''[Mock transcription]'' True)) = ''[Mock transcription]''"
    by (simp add: process_def Let_def)
  show ?thesis
    using ready stub engines v decoded seg rate m4
    by (simp add: process_audio_def Let_def tr st split_beta)
qed

lemma initialize_engines:
  "asr (initialize env self)
     = Some (if whisper_load_raises env then MockASR
             else ASREngine True (SOURCE_LANGUAGE (config self)))"
  "translator (initialize env self)
     = Some (Translator (SOURCE_LANGUAGE (config self)) (TARGET_LANGUAGE (config self)))"
  "tts (initialize env self) = Some (TTSEngine (PIPER_AVAILABLE env \<and> piper_voice_loads env))"
  "is_ready (initialize env self)"
  by (simp_all add: initialize_def Let_def asr_initialize_def translator_initialize_def
        tts_initialize_def)

lemma initialize_status:
  "get_status (initialize env self) now
     = get_status (initialize (env\<lparr>whisper_load_raises := False\<rparr>) self) now"
  by (simp add: get_status_def initialize_def Let_def)

lemma degraded_orchestrator_eq:
  "degraded_orchestrator =
     \<lparr>config = example_config,
      vad = Some (Passthrough (PassthroughVAD 16000 1)),
      asr = Some MockASR, translator = Some (Translator ''en'' ''es''),
      tts = Some (TTSEngine True),
      stabilizer = TextStabilizer 0.85 10,
      phrase_buffer = PhraseBuffer 20 default_delimiters,
      orchestrator_metrics = MetricsCollector 100 0,
      is_ready = True, audio_buffer = []\<rparr>"
  by (simp add: degraded_orchestrator_def initialize_def Let_def PipelineOrchestrator_def
        failing_collaborators_def working_collaborators_def example_config_def
        asr_initialize_def translator_initialize_def tts_initialize_def)

lemma full_orchestrator_eq:
  "full_orchestrator =
     \<lparr>config = example_config,
      vad = Some (Passthrough (PassthroughVAD 16000 1)),
      asr = Some (ASREngine True ''en''), translator = Some (Translator ''en'' ''es''),
      tts = Some (TTSEngine True),
      stabilizer = TextStabilizer 0.85 10,
      phrase_buffer = PhraseBuffer 20 default_delimiters,
      orchestrator_metrics = MetricsCollector 100 0,
      is_ready = True, audio_buffer = []\<rparr>"
  by (simp add: full_orchestrator_def initialize_def Let_def PipelineOrchestrator_def
        working_collaborators_def example_config_def
        asr_initialize_def translator_initialize_def tts_initialize_def)

text \<open>
  C4, as stated, fails in its last part. \<open>get_status\<close> returns the readiness flag, the
  VAD state, the stabilizer state and the metrics summary, and nothing that depends on
  which engines are stubs: the orchestrator initialised while loading the Whisper model
  raises, which holds the ASR stub, and the one initialised with a working model report
  the same status.
\<close>

theorem status_hides_degraded_mode_counterexample:
  "whisper_load_raises failing_collaborators
   \<and> asr degraded_orchestrator = Some MockASR
   \<and> degraded degraded_orchestrator
   \<and> \<not> degraded full_orchestrator
   \<and> get_status degraded_orchestrator 0 = get_status full_orchestrator 0"
  by (simp add: degraded_def degraded_orchestrator_eq full_orchestrator_eq get_status_def
        failing_collaborators_def)

text \<open>
  C4, amended. Of the three collaborators only the ASR engine can raise during the
  orchestrator's initialisation: the translator's and the synthesizer's \<open>initialize\<close>
  catch every exception, so these two engines are never replaced by their stubs. If the
  ASR engine raises, the stub \<open>MockASR\<close> is substituted, and in every case the
  orchestrator becomes ready; it is in degraded mode exactly when the ASR engine raised.
  With the ASR stub, whatever translator and synthesizer are held, \<open>process_audio\<close>
  returns for every chunk that completes a segment (the sample rate not being 0) a result
  bundle, not an error: its transcription is the stub's fixed text, its translation and
  audio are what the translator and synthesizer held make of that text. \<open>get_status\<close>
  reports the same status as after an initialisation in which nothing raised: it carries
  no degraded-mode flag.
\<close>

theorem stub_substitution_and_status:
  "(whisper_load_raises env \<longrightarrow> asr (initialize env self) = Some MockASR)
   \<and> translator (initialize env self)
       = Some (Translator (SOURCE_LANGUAGE (config self)) (TARGET_LANGUAGE (config self)))
   \<and> tts (initialize env self) = Some (TTSEngine (PIPER_AVAILABLE env \<and> piper_voice_loads env))
   \<and> is_ready (initialize env self)
   \<and> degraded (initialize env self) = whisper_load_raises env
   \<and> get_status (initialize env self) now
       = get_status (initialize (env\<lparr>whisper_load_raises := False\<rparr>) self) now
   \<and> (is_ready orch \<and> asr orch = Some MockASR
        \<and> translator orch = Some tr \<and> tts orch = Some ts \<and> vad orch = Some v
        \<and> bytes_to_array bs = Some arr \<and> arr \<noteq> []
        \<and> component_process v arr = ((sp, Some segment), v1)
        \<and> SAMPLE_RATE (config orch) \<noteq> 0 \<and> 0 \<le> window_size (orchestrator_metrics orch)
      \<longrightarrow> (\<exists>b orch'. process_audio env lat orch bs = (ResultBundle b, orch')
              \<and> transcription b = ''[Mock transcription]''
              \<and> translation b = translate env tr ''[Mock transcription]''
              \<and> audio_bytes b = synthesize env ts (translate env tr ''[Mock transcription]'')
              \<and> is_final b))"
proof (intro conjI impI)
  show "asr (initialize env self) = Some MockASR" if "whisper_load_raises env"
    using that by (simp add: initialize_engines)
  show "translator (initialize env self)
       = Some (Translator (SOURCE_LANGUAGE (config self)) (TARGET_LANGUAGE (config self)))"
    by (rule initialize_engines)
  show "tts (initialize env self) = Some (TTSEngine (PIPER_AVAILABLE env \<and> piper_voice_loads env))"
    by (rule initialize_engines)
  show "is_ready (initialize env self)"
    by (rule initialize_engines)
  show "degraded (initialize env self) = whisper_load_raises env"
    by (simp add: degraded_def initialize_engines)
  show "get_status (initialize env self) now
       = get_status (initialize (env\<lparr>whisper_load_raises := False\<rparr>) self) now"
    by (rule initialize_status)
  show "\<exists>b orch'. process_audio env lat orch bs = (ResultBundle b, orch')
              \<and> transcription b = ''[Mock transcription]''
              \<and> translation b = translate env tr ''[Mock transcription]''
              \<and> audio_bytes b = synthesize env ts (translate env tr ''[Mock transcription]'')
              \<and> is_final b"
    if h: "is_ready orch \<and> asr orch = Some MockASR
        \<and> translator orch = Some tr \<and> tts orch = Some ts \<and> vad orch = Some v
        \<and> bytes_to_array bs = Some arr \<and> arr \<noteq> []
        \<and> component_process v arr = ((sp, Some segment), v1)
        \<and> SAMPLE_RATE (config orch) \<noteq> 0 \<and> 0 \<le> window_size (orchestrator_metrics orch)"
    using h by (intro process_audio_mock_asr) blast+
qed

lemma decode_silent_bytes: "bytes_to_array silent_bytes = Some silent_samples"
  by (simp add: bytes_to_array_def silent_bytes_def silent_samples_def)

lemma passthrough_silent_samples:
  "component_process (Passthrough (PassthroughVAD 16000 1)) silent_samples
     = ((True, Some silent_samples), Passthrough (PassthroughVAD 16000 1))"
  by (simp add: component_process_def passthrough_process_def PassthroughVAD_def Let_def
        py_int_def silent_samples_def)

lemma translate_mock_text:
  "translate failing_collaborators (Translator ''en'' ''es'') ''[Mock transcription]'' = ''hola''"
  by (simp add: translate_def failing_collaborators_def working_collaborators_def
        strip_def isspace_def)

lemma synthesize_hola:
  "synthesize failing_collaborators (TTSEngine True) ''hola'' = Some [82, 73, 70, 70]"
  by (simp add: synthesize_def failing_collaborators_def working_collaborators_def
        strip_def isspace_def)

theorem stub_substitution_and_status_witness:
  "whisper_load_raises failing_collaborators
   \<and> degraded_orchestrator = initialize failing_collaborators (PipelineOrchestrator example_config 0)
   \<and> is_ready degraded_orchestrator
   \<and> asr degraded_orchestrator = Some MockASR
   \<and> translator degraded_orchestrator = Some (Translator ''en'' ''es'')
   \<and> tts degraded_orchestrator = Some (TTSEngine True)
   \<and> vad degraded_orchestrator = Some (Passthrough (PassthroughVAD 16000 1))
   \<and> bytes_to_array silent_bytes = Some silent_samples
   \<and> silent_samples \<noteq> []
   \<and> component_process (Passthrough (PassthroughVAD 16000 1)) silent_samples
       = ((True, Some silent_samples), Passthrough (PassthroughVAD 16000 1))
   \<and> SAMPLE_RATE (config degraded_orchestrator) \<noteq> 0
   \<and> 0 \<le> window_size (orchestrator_metrics degraded_orchestrator)
   \<and> (\<exists>b orch'. process_audio failing_collaborators example_latencies degraded_orchestrator
                     silent_bytes = (ResultBundle b, orch')
          \<and> transcription b = ''[Mock transcription]''
          \<and> translation b = ''hola''
          \<and> audio_bytes b = Some [82, 73, 70, 70]
          \<and> is_final b)"
proof -
  have f: "whisper_load_raises failing_collaborators"
    by (simp add: failing_collaborators_def)
  have o: "is_ready degraded_orchestrator"
    "asr degraded_orchestrator = Some MockASR"
    "translator degraded_orchestrator = Some (Translator ''en'' ''es'')"
    "tts degraded_orchestrator = Some (TTSEngine True)"
    "vad degraded_orchestrator = Some (Passthrough (PassthroughVAD 16000 1))"
    by (simp_all add: degraded_orchestrator_eq)
  have ne: "silent_samples \<noteq> []" by (simp add: silent_samples_def)
  have r: "SAMPLE_RATE (config degraded_orchestrator) \<noteq> 0"
    by (simp add: degraded_orchestrator_eq example_config_def)
  have w: "0 \<le> window_size (orchestrator_metrics degraded_orchestrator)"
    by (simp add: degraded_orchestrator_eq MetricsCollector_def)
  from stub_substitution_and_status
    [of failing_collaborators "PipelineOrchestrator example_config 0" 0
        degraded_orchestrator "Translator ''en'' ''es''" "TTSEngine True"
        "Passthrough (PassthroughVAD 16000 1)"
        silent_bytes silent_samples True silent_samples "Passthrough (PassthroughVAD 16000 1)"
        example_latencies]
    f o decode_silent_bytes ne passthrough_silent_samples r w
  have "\<exists>b orch'. process_audio failing_collaborators example_latencies degraded_orchestrator
                     silent_bytes = (ResultBundle b, orch')
          \<and> transcription b = ''[Mock transcription]''
          \<and> translation b
              = translate failing_collaborators (Translator ''en'' ''es'') ''[Mock transcription]''
          \<and> audio_bytes b
              = synthesize failing_collaborators (TTSEngine True)
                  (translate failing_collaborators (Translator ''en'' ''es'')
                     ''[Mock transcription]'')
          \<and> is_final b"
    by blast
  then have "\<exists>b orch'. process_audio failing_collaborators example_latencies degraded_orchestrator
                     silent_bytes = (ResultBundle b, orch')
          \<and> transcription b = ''[Mock transcription]''
          \<and> translation b = ''hola''
          \<and> audio_bytes b = Some [82, 73, 70, 70]
          \<and> is_final b"
    by (simp only: translate_mock_text synthesize_hola)
  with f o decode_silent_bytes ne passthrough_silent_samples r w show ?thesis
    by (simp only: degraded_orchestrator_def simp_thms)
qed

end
